theory Spec2Isabelle
  imports Complex_Main "HOL-Library.AList" "HOL-Library.Sorting_Algorithms"
    "HOL-Library.List_Lexorder" "HOL-Library.Char_ord" "HOL-Library.Log_Nat"
begin

section \<open>Data model\<close>

text \<open>
  Strings are lists of code units; the model covers the code units below 256.
  A \<open>DataStreamRecord\<close> is the object of one CSV line: an association list from column
  name to string value, in the object's property order. Reading a property that the
  object does not have gives \<open>undefined\<close>, here \<open>None\<close>.
\<close>

type_synonym DataStreamRecord = "(string \<times> string) list"

definition field :: "DataStreamRecord \<Rightarrow> string \<Rightarrow> string option" where
  "field record k = map_of record k"

text \<open>Truthiness of a value of type string or undefined: \<open>undefined\<close> and \<open>""\<close> are falsy.\<close>

definition truthy :: "string option \<Rightarrow> bool" where
  "truthy v = (case v of None \<Rightarrow> False | Some s \<Rightarrow> s \<noteq> [])"

text \<open>
  A \<open>Map<string, DataStreamRecord[]>\<close> is the list of its entries in insertion order.
  \<open>set\<close> on a key that is present replaces the value in place, on a new key it appends
  the entry; \<open>get(k).push(r)\<close> extends the array stored under \<open>k\<close>.
\<close>

type_synonym LocationMap = "(string \<times> DataStreamRecord list) list"

definition map_has :: "LocationMap \<Rightarrow> string \<Rightarrow> bool" where
  "map_has m k = (map_of m k \<noteq> None)"

definition map_get :: "LocationMap \<Rightarrow> string \<Rightarrow> DataStreamRecord list option" where
  "map_get m k = map_of m k"

definition map_set :: "LocationMap \<Rightarrow> string \<Rightarrow> DataStreamRecord list \<Rightarrow> LocationMap" where
  "map_set m k v = AList.update k v m"

definition get_push :: "LocationMap \<Rightarrow> string \<Rightarrow> DataStreamRecord \<Rightarrow> LocationMap" where
  "get_push m k record = AList.map_entry k (\<lambda>records. records @ [record]) m"

section \<open>indexRecordsByLocation\<close>

text \<open>The body of the \<open>for (const record of records)\<close> loop.\<close>

definition index_record :: "DataStreamRecord \<Rightarrow> LocationMap \<Rightarrow> LocationMap" where
  "index_record record locationMap =
     (let locationId = field record ''MonitoringLocationID'' in
      if \<not> truthy locationId then locationMap
      else
        let k = the locationId;
            locationMap1 = (if \<not> map_has locationMap k then map_set locationMap k []
                            else locationMap)
        in get_push locationMap1 k record)"

definition indexRecordsByLocation :: "DataStreamRecord list \<Rightarrow> LocationMap" where
  "indexRecordsByLocation records = fold index_record records []"

text \<open>The records of \<open>R\<close> whose location id is the string \<open>L\<close>, in input order.\<close>

definition records_of_location :: "DataStreamRecord list \<Rightarrow> string \<Rightarrow> DataStreamRecord list" where
  "records_of_location R L = filter (\<lambda>r. field r ''MonitoringLocationID'' = Some L) R"

definition group_sizes :: "LocationMap \<Rightarrow> nat" where
  "group_sizes m = sum_list (map (\<lambda>e. length (snd e)) m)"

section \<open>Numbers and parseFloat\<close>

text \<open>
  A number is \<open>NaN\<close>, one of the infinities, the zero of negative sign, or another finite
  binary64 value, kept as the rational that it denotes: \<open>Num 0\<close> is the zero of positive
  sign.
\<close>

datatype jsnum = NaN | PosInfinity | NegInfinity | NegZero | Num rat

definition isNaN :: "jsnum \<Rightarrow> bool" where
  "isNaN v = (v = NaN)"

definition isFinite :: "jsnum \<Rightarrow> bool" where
  "isFinite v = (case v of Num _ \<Rightarrow> True | NegZero \<Rightarrow> True | _ \<Rightarrow> False)"

fun number_value :: "jsnum \<Rightarrow> rat" where
  "number_value (Num v) = v"
| "number_value _ = 0"

text \<open>The sign of a number, and the zero and the infinity of a given sign.\<close>

definition is_negative :: "jsnum \<Rightarrow> bool" where
  "is_negative v = (case v of NegInfinity \<Rightarrow> True | NegZero \<Rightarrow> True | Num x \<Rightarrow> x < 0
                     | _ \<Rightarrow> False)"

definition signed_zero :: "bool \<Rightarrow> jsnum" where
  "signed_zero neg = (if neg then NegZero else Num 0)"

definition signed_infinity :: "bool \<Rightarrow> jsnum" where
  "signed_infinity neg = (if neg then NegInfinity else PosInfinity)"

definition is_zero :: "jsnum \<Rightarrow> bool" where
  "is_zero v = (v = NegZero \<or> v = Num 0)"

definition negate :: "jsnum \<Rightarrow> jsnum" where
  "negate v = (case v of NaN \<Rightarrow> NaN | PosInfinity \<Rightarrow> NegInfinity
                | NegInfinity \<Rightarrow> PosInfinity | NegZero \<Rightarrow> Num 0
                | Num x \<Rightarrow> if x = 0 then NegZero else Num (- x))"

text \<open>
  The binary64 value of a real number: round to the nearest value with 53 significant
  bits and least exponent \<open>-1074\<close>, a tie to the even one; a result of magnitude
  \<open>2^1024\<close> is infinite, and a negative number that rounds to zero gives the zero of
  negative sign. \<open>binade x\<close> is the \<open>e\<close> with \<open>2^e \<le> x < 2^(e+1)\<close>.
\<close>

definition pow2 :: "int \<Rightarrow> rat" where
  "pow2 k = (if 0 \<le> k then 2 ^ nat k else 1 / 2 ^ nat (- k))"

definition binade :: "rat \<Rightarrow> int" where
  "binade x = (let (a, b) = quotient_of x; k = bitlen a - bitlen b
               in if pow2 k \<le> x then k else k - 1)"

definition round_half_even :: "rat \<Rightarrow> int" where
  "round_half_even q =
     (let n = \<lfloor>q\<rfloor>; r = q - of_int n
      in if r < 1 / 2 then n else if 1 / 2 < r then n + 1 else if even n then n else n + 1)"

definition round_to_double :: "rat \<Rightarrow> jsnum" where
  "round_to_double x =
     (if x = 0 then Num 0
      else let e = max (binade \<bar>x\<bar>) (- 1022);
               u = pow2 (e - 52);
               y = of_int (round_half_even (x / u)) * u
           in if pow2 1024 \<le> y then PosInfinity
              else if y \<le> - pow2 1024 then NegInfinity
              else if y = 0 \<and> x < 0 then NegZero
              else Num y)"

text \<open>The operators \<open>+\<close>, \<open>/\<close> and \<open>*\<close> on numbers, and \<open>Math.floor\<close>.\<close>

fun js_add :: "jsnum \<Rightarrow> jsnum \<Rightarrow> jsnum" where
  "js_add NaN _ = NaN"
| "js_add _ NaN = NaN"
| "js_add PosInfinity NegInfinity = NaN"
| "js_add NegInfinity PosInfinity = NaN"
| "js_add PosInfinity _ = PosInfinity"
| "js_add _ PosInfinity = PosInfinity"
| "js_add NegInfinity _ = NegInfinity"
| "js_add _ NegInfinity = NegInfinity"
| "js_add NegZero NegZero = NegZero"
| "js_add x y = round_to_double (number_value x + number_value y)"

definition js_divide :: "jsnum \<Rightarrow> jsnum \<Rightarrow> jsnum" where
  "js_divide x y =
     (let neg = (is_negative x \<noteq> is_negative y) in
      if isNaN x \<or> isNaN y then NaN
      else if \<not> isFinite x then (if \<not> isFinite y then NaN else signed_infinity neg)
      else if \<not> isFinite y then signed_zero neg
      else if is_zero y then (if is_zero x then NaN else signed_infinity neg)
      else if is_zero x then signed_zero neg
      else round_to_double (number_value x / number_value y))"

definition js_multiply :: "jsnum \<Rightarrow> jsnum \<Rightarrow> jsnum" where
  "js_multiply x y =
     (let neg = (is_negative x \<noteq> is_negative y) in
      if isNaN x \<or> isNaN y then NaN
      else if \<not> isFinite x then (if is_zero y then NaN else signed_infinity neg)
      else if \<not> isFinite y then (if is_zero x then NaN else signed_infinity neg)
      else if is_zero x \<or> is_zero y then signed_zero neg
      else round_to_double (number_value x * number_value y))"

definition Math_floor :: "jsnum \<Rightarrow> jsnum" where
  "Math_floor v = (case v of Num x \<Rightarrow> Num (of_int \<lfloor>x\<rfloor>) | w \<Rightarrow> w)"

text \<open>\<open>String(v)\<close> for a value that is a string or \<open>undefined\<close>.\<close>

definition ToString :: "string option \<Rightarrow> string" where
  "ToString v = (case v of None \<Rightarrow> ''undefined'' | Some s \<Rightarrow> s)"

text \<open>White space and line terminators, as far as they are below 256.\<close>

definition is_white_space :: "char \<Rightarrow> bool" where
  "is_white_space c = ((of_char c :: nat) \<in> {9, 10, 11, 12, 13, 32, 160})"

definition is_digit :: "char \<Rightarrow> bool" where
  "is_digit c = (48 \<le> (of_char c :: nat) \<and> (of_char c :: nat) \<le> 57)"

definition digits_value :: "string \<Rightarrow> nat" where
  "digits_value ds = foldl (\<lambda>n c. 10 * n + (of_char c - 48)) 0 ds"

text \<open>
  \<open>ExponentPart\<close>: \<open>e\<close> or \<open>E\<close>, an optional sign and at least one digit. Returns the
  exponent and the text behind it; without a complete exponent part nothing is consumed.
\<close>

definition exponent_part :: "string \<Rightarrow> int \<times> string" where
  "exponent_part s =
     (case s of
        [] \<Rightarrow> (0, s)
      | c # t \<Rightarrow>
          if c = CHR ''e'' \<or> c = CHR ''E'' then
            (let (sgn, u) = (case t of
                               [] \<Rightarrow> (1, t)
                             | d # u \<Rightarrow> if d = CHR ''+'' then (1, u)
                                        else if d = CHR ''-'' then (- 1, u) else (1, t));
                 ds = takeWhile is_digit u
             in if ds = [] then (0, s)
                else (sgn * int (digits_value ds), dropWhile is_digit u))
          else (0, s))"

text \<open>
  The longest prefix that is \<open>digits [. [digits]] [exponent]\<close> or \<open>. digits [exponent]\<close>:
  its value and the text behind it, \<open>None\<close> when there is no such prefix.
\<close>

definition unsigned_decimal :: "string \<Rightarrow> (rat \<times> string) option" where
  "unsigned_decimal s =
     (let ip = takeWhile is_digit s;
          r1 = dropWhile is_digit s;
          (fp, r2) = (case r1 of
                        [] \<Rightarrow> ([], r1)
                      | c # t \<Rightarrow>
                          if c = CHR ''.'' \<and> (ip \<noteq> [] \<or> takeWhile is_digit t \<noteq> [])
                          then (takeWhile is_digit t, dropWhile is_digit t)
                          else ([], r1))
      in if ip = [] \<and> fp = [] then None
         else
           let (e, r3) = exponent_part r2;
               m = of_nat (digits_value ip) + of_nat (digits_value fp) / 10 ^ length fp
           in Some (if 0 \<le> e then m * 10 ^ nat e else m / 10 ^ nat (- e), r3))"

definition str_unsigned_decimal_literal :: "string \<Rightarrow> (jsnum \<times> string) option" where
  "str_unsigned_decimal_literal s =
     (if take 8 s = ''Infinity'' then Some (PosInfinity, drop 8 s)
      else map_option (\<lambda>(v, r). (round_to_double v, r)) (unsigned_decimal s))"

definition str_decimal_literal :: "string \<Rightarrow> (jsnum \<times> string) option" where
  "str_decimal_literal s =
     (case s of
        [] \<Rightarrow> None
      | c # t \<Rightarrow>
          if c = CHR ''+'' then str_unsigned_decimal_literal t
          else if c = CHR ''-''
          then map_option (\<lambda>(v, r). (negate v, r)) (str_unsigned_decimal_literal t)
          else str_unsigned_decimal_literal s)"

text \<open>
  \<open>parseFloat\<close>: skip leading white space, take the longest prefix that is a decimal
  literal, ignore whatever follows it, and give the binary64 value of the literal;
  \<open>NaN\<close> when no prefix is a literal.
\<close>

definition parseFloat :: "string \<Rightarrow> jsnum" where
  "parseFloat s =
     (case str_decimal_literal (dropWhile is_white_space s) of
        None \<Rightarrow> NaN
      | Some (v, _) \<Rightarrow> v)"

text \<open>
  A text with a numeric start: behind leading white space and one optional sign stands
  \<open>Infinity\<close>, a digit, or a point and a digit.
\<close>

definition numeric_start :: "string \<Rightarrow> bool" where
  "numeric_start s =
     (let t = dropWhile is_white_space s;
          u = (case t of [] \<Rightarrow> [] | c # r \<Rightarrow> if c = CHR ''+'' \<or> c = CHR ''-'' then r else t)
      in take 8 u = ''Infinity'' \<or>
         (case u of
            [] \<Rightarrow> False
          | c # r \<Rightarrow> is_digit c \<or>
                     (c = CHR ''.'' \<and> (case r of [] \<Rightarrow> False | d # _ \<Rightarrow> is_digit d))))"

section \<open>calculateTemperatureAverageFromIndex\<close>

record TemperatureResult =
  monitoringLocationId :: string
  average :: jsnum
  count' :: nat
  validValues :: "jsnum list"

text \<open>The body of the loop over the location's records; \<open>push\<close> appends.\<close>

definition collect_value :: "jsnum list \<Rightarrow> DataStreamRecord \<Rightarrow> jsnum list" where
  "collect_value vs record =
     (if field record ''CharacteristicName'' = Some ''Temperature, water'' then
        (let v = parseFloat (ToString (field record ''ResultValue'')) in
         if \<not> isNaN v \<and> isFinite v then vs @ [v] else vs)
      else vs)"

definition calculateTemperatureAverageFromIndex ::
    "LocationMap \<Rightarrow> string \<Rightarrow> TemperatureResult" where
  "calculateTemperatureAverageFromIndex recordsIndex locationId =
     (let locationRecords = (case map_get recordsIndex locationId of
                               None \<Rightarrow> [] | Some records \<Rightarrow> records);
          vs = foldl collect_value [] locationRecords;
          avg = (if 0 < length vs
                 then js_divide (foldl (\<lambda>sum val. js_add sum val) (Num 0) vs)
                        (Num (of_nat (length vs)))
                 else Num 0)
      in \<lparr>monitoringLocationId = locationId, average = avg, count' = length vs,
          validValues = vs\<rparr>)"

text \<open>The record group that a lookup of \<open>L\<close> yields: empty when \<open>L\<close> is not a key.\<close>

definition group_of :: "LocationMap \<Rightarrow> string \<Rightarrow> DataStreamRecord list" where
  "group_of recordsIndex L = (case map_get recordsIndex L of None \<Rightarrow> [] | Some g \<Rightarrow> g)"

text \<open>
  A record that the aggregation accepts: its \<open>CharacteristicName\<close> is the literal, its
  \<open>ResultValue\<close> has a numeric start, and the binary64 value of the literal that it
  starts with is finite.
\<close>

definition accepted :: "DataStreamRecord \<Rightarrow> bool" where
  "accepted r = (field r ''CharacteristicName'' = Some ''Temperature, water'' \<and>
                 numeric_start (ToString (field r ''ResultValue'')) \<and>
                 isFinite (parseFloat (ToString (field r ''ResultValue''))))"

definition reading :: "DataStreamRecord \<Rightarrow> jsnum" where
  "reading r = parseFloat (ToString (field r ''ResultValue''))"

text \<open>
  The reading of C1 as the specification words it: a \<open>ResultValue\<close> counts when the
  whole string, white space around it apart, is a decimal literal with a finite value;
  a string that is not such a literal is malformed and dropped.
\<close>

definition well_formed_number :: "string \<Rightarrow> bool" where
  "well_formed_number s =
     (case str_decimal_literal (dropWhile is_white_space s) of
        None \<Rightarrow> False
      | Some (v, r) \<Rightarrow> isFinite v \<and> list_all is_white_space r)"

text \<open>
  The arithmetic mean of finite values, and the condition that the computation of the
  average does not round: each partial sum, taken from the left, and the quotient by
  the count are binary64 values.
\<close>

definition mean :: "jsnum list \<Rightarrow> rat" where
  "mean vs = sum_list (map number_value vs) / of_nat (length vs)"

fun sums_exact :: "rat \<Rightarrow> jsnum list \<Rightarrow> bool" where
  "sums_exact s [] = True"
| "sums_exact s (v # vs) =
     (isFinite v \<and> round_to_double (s + number_value v) = Num (s + number_value v) \<and>
      sums_exact (s + number_value v) vs)"

definition no_rounding :: "jsnum list \<Rightarrow> bool" where
  "no_rounding vs = (sums_exact 0 vs \<and> round_to_double (mean vs) = Num (mean vs))"

definition claimed_validValues :: "LocationMap \<Rightarrow> string \<Rightarrow> jsnum list" where
  "claimed_validValues recordsIndex L =
     map reading
       (filter (\<lambda>r. field r ''CharacteristicName'' = Some ''Temperature, water'' \<and>
                    well_formed_number (ToString (field r ''ResultValue'')))
          (group_of recordsIndex L))"

section \<open>getMonitoringLocationsWithNamesFromIndex\<close>

record MonitoringLocation =
  id' :: string
  name :: string
  displayName :: string

text \<open>
  What the code throws: the \<open>TypeError\<close> of reading a property of \<open>undefined\<close>, the
  \<open>RangeError\<close> of a call with more arguments than the engine takes, and
  \<open>new Error(message)\<close>.
\<close>

datatype error = TypeError | RangeError | Error string

text \<open>
  The loop over \<open>recordsIndex.entries()\<close>. \<open>locationRecords[0]\<close> of an empty array is
  \<open>undefined\<close>, and reading its \<open>MonitoringLocationName\<close> throws.
\<close>

fun collect_locations ::
    "LocationMap \<Rightarrow> MonitoringLocation list \<Rightarrow> error + MonitoringLocation list" where
  "collect_locations [] locations = Inr locations"
| "collect_locations ((locationId, locationRecords) # entries) locations =
     (case locationRecords of
        [] \<Rightarrow> Inl TypeError
      | firstRecord # _ \<Rightarrow>
          let n = (if truthy (field firstRecord ''MonitoringLocationName'')
                   then the (field firstRecord ''MonitoringLocationName'')
                   else locationId)
          in collect_locations entries
               (locations @
                  [\<lparr>id' = locationId, name = n, displayName = n @ '' ('' @ locationId @ '')''\<rparr>]))"

text \<open>
  \<open>localeCompare\<close> belongs to the runtime's collation: it is a parameter, a comparator
  (a total preorder on strings). \<open>Array.prototype.sort\<close> is stable, so with such a
  comparator its result is that of the stable insertion sort.
\<close>

definition getMonitoringLocationsWithNamesFromIndex ::
    "string comparator \<Rightarrow> LocationMap \<Rightarrow> error + MonitoringLocation list" where
  "getMonitoringLocationsWithNamesFromIndex localeCompare recordsIndex =
     (case collect_locations recordsIndex [] of
        Inl e \<Rightarrow> Inl e
      | Inr locations \<Rightarrow> Inr (Sorting_Algorithms.sort (key name localeCompare) locations))"

text \<open>
  The location that the specification derives from one entry of the index: the name is
  the first record's \<open>MonitoringLocationName\<close> when that key is present and non-empty,
  else the location id.
\<close>

definition location_name :: "string \<Rightarrow> DataStreamRecord list \<Rightarrow> string" where
  "location_name locationId g =
     (case field (hd g) ''MonitoringLocationName'' of
        None \<Rightarrow> locationId
      | Some n \<Rightarrow> if n = [] then locationId else n)"

definition location_of_entry :: "string \<times> DataStreamRecord list \<Rightarrow> MonitoringLocation" where
  "location_of_entry e =
     \<lparr>id' = fst e, name = location_name (fst e) (snd e),
      displayName = location_name (fst e) (snd e) @ '' ('' @ fst e @ '')''\<rparr>"

section \<open>parseCSVFile\<close>

text \<open>
  A row as the parsing engine delivers it (the handler takes it as \<open>any\<close>): its values
  are strings, except that the engine collects surplus fields of a line in an array.
  An object has each key once.
\<close>

datatype jsval = JString string | JArray "string list"

type_synonym Row = "(string \<times> jsval) list"

text \<open>
  The \<open>results\<close> of one batch: its rows and \<open>meta.cursor\<close>, which may be undefined.
  \<open>results.errors\<close> only goes to the console and is left out.
\<close>

record ParseResult =
  data :: "Row list"
  cursor :: "nat option"

text \<open>The object handed to \<open>onProgress\<close>.\<close>

record Progress =
  bytesProcessed :: nat
  totalBytes :: nat
  percentage :: jsnum

text \<open>
  The variables of the promise's closure: \<open>allRecords\<close>, \<open>bytesProcessed\<close> (here
  \<open>processed\<close>), and the calls made to \<open>onProgress\<close> so far.
\<close>

record ParseState =
  allRecords :: "Row list"
  processed :: nat
  notified :: "Progress list"

text \<open>
  The engine ends a run with its \<open>complete\<close> callback, or with \<open>error\<close> and a message,
  or it makes no further call (as when an exception has reached it from a callback).
\<close>

datatype finish = Complete | Failure string | NoFurtherCall

definition trim :: "string \<Rightarrow> string" where
  "trim s = rev (dropWhile is_white_space (rev (dropWhile is_white_space s)))"

definition trim_value :: "jsval \<Rightarrow> jsval" where
  "trim_value v = (case v of JString s \<Rightarrow> JString (trim s) | JArray a \<Rightarrow> JArray a)"

text \<open>
  \<open>for (const key in row) trimmedRow[key.trim()] = ...\<close>, starting from \<open>{}\<close>: a key
  that is already there keeps its place and takes the new value. (A key that trims to
  \<open>__proto__\<close>, which an assignment does not store, is outside the model.)
\<close>

definition trim_row :: "Row \<Rightarrow> Row" where
  "trim_row row =
     foldl (\<lambda>trimmedRow (k, v). AList.update (trim k) (trim_value v) trimmedRow) [] row"

text \<open>
  The \<open>chunk\<close> handler. \<open>allRecords.push(...trimmedData)\<close> passes each row as one
  argument: with more rows than \<open>maxArguments\<close>, the most arguments that the engine takes
  in a call, the call throws, before anything is stored and before the progress call.
\<close>

definition chunk_callback ::
    "nat \<Rightarrow> bool \<Rightarrow> bool \<Rightarrow> nat \<Rightarrow> ParseState \<Rightarrow> ParseResult \<Rightarrow> error + ParseState" where
  "chunk_callback maxArguments useWorker onProgress fileSize st results =
     (if 0 < length (data results) \<and> maxArguments < length (data results) then Inl RangeError
      else
        let st1 = (if 0 < length (data results)
                   then st\<lparr>allRecords := allRecords st @
                          (if useWorker then map trim_row (data results) else data results)\<rparr>
                   else st)
        in Inr (if onProgress \<and> cursor results \<noteq> None
                then st1\<lparr>processed := the (cursor results),
                         notified := notified st1 @
                           [\<lparr>bytesProcessed = the (cursor results), totalBytes = fileSize,
                             percentage =
                               Math_floor
                                 (js_multiply
                                    (js_divide (Num (of_nat (the (cursor results))))
                                       (Num (of_nat fileSize)))
                                    (Num 100))\<rparr>]\<rparr>
                else st1))"

text \<open>
  One call of the handler by the engine: an exception leaves the variables of the closure
  as they were and goes to the engine.
\<close>

definition handle_chunk ::
    "nat \<Rightarrow> bool \<Rightarrow> bool \<Rightarrow> nat \<Rightarrow> ParseState \<Rightarrow> ParseResult \<Rightarrow> ParseState" where
  "handle_chunk maxArguments useWorker onProgress fileSize st results =
     (case chunk_callback maxArguments useWorker onProgress fileSize st results of
        Inl e \<Rightarrow> st
      | Inr st' \<Rightarrow> st')"

definition requiredColumns :: "string list" where
  "requiredColumns = [''MonitoringLocationID'', ''CharacteristicName'', ''ResultValue'']"

definition has_property :: "Row \<Rightarrow> string \<Rightarrow> bool" where
  "has_property row col = (map_of row col \<noteq> None)"

fun join :: "string \<Rightarrow> string list \<Rightarrow> string" where
  "join sep [] = []"
| "join sep [x] = x"
| "join sep (x # y # zs) = x @ sep @ join sep (y # zs)"

definition complete_callback ::
    "bool \<Rightarrow> nat \<Rightarrow> ParseState \<Rightarrow> Progress list \<times> (error + Row list)" where
  "complete_callback onProgress fileSize st =
     (let calls = (if onProgress
                   then notified st @
                          [\<lparr>bytesProcessed = fileSize, totalBytes = fileSize, percentage = Num 100\<rparr>]
                   else notified st)
      in if length (allRecords st) = 0 then (calls, Inl (Error ''No data found in CSV file''))
         else
           let firstRecord = hd (allRecords st);
               missingColumns = filter (\<lambda>col. \<not> has_property firstRecord col) requiredColumns
           in if 0 < length missingColumns
              then (calls, Inl (Error (''Missing required columns: '' @ join '', '' missingColumns)))
              else (calls, Inr (allRecords st)))"

definition error_callback :: "string \<Rightarrow> ParseState \<Rightarrow> Progress list \<times> (error + Row list)" where
  "error_callback message st = (notified st, Inl (Error (''Failed to parse CSV: '' @ message)))"

text \<open>
  One run of \<open>parseCSVFile\<close>: the engine calls \<open>chunk\<close> for each batch in turn and then
  finishes. The result is the list of calls made to \<open>onProgress\<close> and how the promise
  settles: \<open>Some (Inl e)\<close> rejected, \<open>Some (Inr records)\<close> resolved, \<open>None\<close> never.
  \<open>onProgress\<close> says whether the caller gave a callback, \<open>fileSize\<close> is \<open>file.size\<close>,
  the \<open>totalBytes\<close> of the source.
\<close>

definition parseCSVFile ::
    "nat \<Rightarrow> bool \<Rightarrow> bool \<Rightarrow> nat \<Rightarrow> ParseResult list \<Rightarrow> finish \<Rightarrow>
     Progress list \<times> (error + Row list) option" where
  "parseCSVFile maxArguments useWorker onProgress fileSize chunks fin =
     (let st = foldl (handle_chunk maxArguments useWorker onProgress fileSize)
                 \<lparr>allRecords = [], processed = 0, notified = []\<rparr> chunks
      in case fin of
           Complete \<Rightarrow>
             (fst (complete_callback onProgress fileSize st),
              Some (snd (complete_callback onProgress fileSize st)))
         | Failure message \<Rightarrow>
             (fst (error_callback message st), Some (snd (error_callback message st)))
         | NoFurtherCall \<Rightarrow> (notified st, None))"

text \<open>The batches that the handler takes, and the rows that they add to \<open>allRecords\<close>.\<close>

definition taken :: "nat \<Rightarrow> ParseResult list \<Rightarrow> ParseResult list" where
  "taken maxArguments chunks =
     filter (\<lambda>results. length (data results) \<le> maxArguments) chunks"

definition delivered :: "nat \<Rightarrow> bool \<Rightarrow> ParseResult list \<Rightarrow> Row list" where
  "delivered maxArguments useWorker chunks =
     concat (map (\<lambda>results. if useWorker then map trim_row (data results) else data results)
               (taken maxArguments chunks))"

text \<open>The cursors that the taken batches report, and the call made for one of them.\<close>

definition reported_cursors :: "nat \<Rightarrow> ParseResult list \<Rightarrow> nat list" where
  "reported_cursors maxArguments chunks =
     map (\<lambda>results. the (cursor results))
       (filter (\<lambda>results. cursor results \<noteq> None) (taken maxArguments chunks))"

definition progress_of :: "nat \<Rightarrow> nat \<Rightarrow> Progress" where
  "progress_of fileSize c =
     \<lparr>bytesProcessed = c, totalBytes = fileSize,
      percentage =
        Math_floor (js_multiply (js_divide (Num (of_nat c)) (Num (of_nat fileSize))) (Num 100))\<rparr>"



section \<open>processFile\<close>

text \<open>
  The state of the component that \<open>processFile\<close> reads and writes. The awaited
  \<open>parseCSVFile\<close> enters as its outcome, of the declared type: the calls it made to
  \<open>onProgress\<close>, and the rejection or the resolved records.
\<close>

record State =
  records :: "DataStreamRecord list"
  recordsIndex :: LocationMap
  monitoringLocations :: "MonitoringLocation list"
  selectedLocation :: string
  result :: "TemperatureResult option"
  isProcessing :: bool
  error :: "string option"
  parseProgress :: jsnum
  totalRows :: nat
  searchQuery :: string

definition onProgress_callback :: "State \<Rightarrow> Progress \<Rightarrow> State" where
  "onProgress_callback st progress =
     st\<lparr>parseProgress := percentage progress, totalRows := totalBytes progress div 100\<rparr>"

text \<open>
  The \<open>try\<close> block: the state when it is left, and the error thrown, if any. The
  assignments made before a \<open>throw\<close> stay.
\<close>

definition try_block ::
    "string comparator \<Rightarrow> error + DataStreamRecord list \<Rightarrow> State \<Rightarrow> State \<times> error option" where
  "try_block localeCompare parsed st =
     (case parsed of
        Inl e \<Rightarrow> (st, Some e)
      | Inr parsedRecords \<Rightarrow>
          if length parsedRecords = 0 then (st, Some (Error ''No data found in CSV file''))
          else
            let st1 = st\<lparr>records := parsedRecords\<rparr>;
                st2 = st1\<lparr>recordsIndex := indexRecordsByLocation parsedRecords\<rparr>
            in case getMonitoringLocationsWithNamesFromIndex localeCompare (recordsIndex st2) of
                 Inl e \<Rightarrow> (st2, Some e)
               | Inr locations \<Rightarrow>
                   if length locations = 0
                   then (st2, Some (Error ''No monitoring locations found in CSV file''))
                   else (st2\<lparr>monitoringLocations := locations, selectedLocation := [],
                             searchQuery := [], result := None\<rparr>, None))"

definition catch_block :: "State \<Rightarrow> State" where
  "catch_block st =
     st\<lparr>error := Some ''Failed to process CSV file'', records := [], recordsIndex := [],
        monitoringLocations := []\<rparr>"

definition finally_block :: "State \<Rightarrow> State" where
  "finally_block st = st\<lparr>isProcessing := False, parseProgress := Num 0, totalRows := 0\<rparr>"

definition processFile ::
    "string comparator \<Rightarrow> Progress list \<Rightarrow> error + DataStreamRecord list \<Rightarrow> State \<Rightarrow> State" where
  "processFile localeCompare progress parsed st =
     (let st0 = st\<lparr>isProcessing := True, error := None, parseProgress := Num 0, totalRows := 0\<rparr>;
          st1 = foldl onProgress_callback st0 progress;
          (st2, thrown) = try_block localeCompare parsed st1;
          st3 = (case thrown of None \<Rightarrow> st2 | Some e \<Rightarrow> catch_block st2)
      in finally_block st3)"

text \<open>
  The ingestion fails: the parse was rejected (decode, empty input or schema error), it
  resolved with no records, or the index gives no location.
\<close>

definition ingestion_fails :: "string comparator \<Rightarrow> error + DataStreamRecord list \<Rightarrow> bool" where
  "ingestion_fails localeCompare parsed =
     (case parsed of
        Inl e \<Rightarrow> True
      | Inr parsedRecords \<Rightarrow>
          parsedRecords = [] \<or>
          (case getMonitoringLocationsWithNamesFromIndex localeCompare
                  (indexRecordsByLocation parsedRecords) of
             Inl e \<Rightarrow> True
           | Inr locations \<Rightarrow> locations = []))"

text \<open>
  \<open>handleFileChange\<close>, for the name of the selected file (\<open>None\<close> when no file was
  selected) and the outcome of its parse. The variable \<open>file\<close> is not part of the state.
\<close>

definition endsWith :: "string \<Rightarrow> string \<Rightarrow> bool" where
  "endsWith s suffix = (length suffix \<le> length s \<and> drop (length s - length suffix) s = suffix)"

definition handleFileChange ::
    "string comparator \<Rightarrow> string option \<Rightarrow> Progress list \<Rightarrow>
     error + DataStreamRecord list \<Rightarrow> State \<Rightarrow> State" where
  "handleFileChange localeCompare selectedFile progress parsed st =
     (case selectedFile of
        None \<Rightarrow> st
      | Some fileName \<Rightarrow>
          if \<not> endsWith fileName ''.csv'' then st\<lparr>error := Some ''Please select a CSV file''\<rparr>
          else processFile localeCompare progress parsed
                 (st\<lparr>error := None, result := None, selectedLocation := []\<rparr>))"

section \<open>Sample inputs\<close>

text \<open>Records of three lakes, the third without a name, and the order of code units.\<close>

definition lake_records :: "DataStreamRecord list" where
  "lake_records =
     [[(''MonitoringLocationID'', ''LOC003''), (''MonitoringLocationName'', ''Zebra Lake''),
       (''CharacteristicName'', ''Temperature, water''), (''ResultValue'', ''15.5'')],
      [(''MonitoringLocationID'', ''LOC001''), (''MonitoringLocationName'', ''Apple Lake''),
       (''CharacteristicName'', ''Temperature, water''), (''ResultValue'', ''16.5'')],
      [(''MonitoringLocationID'', ''LOC002''),
       (''CharacteristicName'', ''Temperature, water''), (''ResultValue'', ''17.5'')]]"

definition code_unit_order :: "string comparator" where
  "code_unit_order = default"


text \<open>A row of a line that has no third field.\<close>

definition short_row :: Row where
  "short_row =
     [(''MonitoringLocationID'', JString ''LOC001''),
      (''CharacteristicName'', JString ''Temperature, water'')]"

text \<open>
  Three readings whose sum, taken from the left, loses the middle one; and two whose sum
  is beyond the largest binary64 value.
\<close>

definition cancelling_records :: "DataStreamRecord list" where
  "cancelling_records =
     [[(''MonitoringLocationID'', ''LOC001''), (''CharacteristicName'', ''Temperature, water''),
       (''ResultValue'', ''1e16'')],
      [(''MonitoringLocationID'', ''LOC001''), (''CharacteristicName'', ''Temperature, water''),
       (''ResultValue'', ''1'')],
      [(''MonitoringLocationID'', ''LOC001''), (''CharacteristicName'', ''Temperature, water''),
       (''ResultValue'', ''-1e16'')]]"

definition overflowing_records :: "DataStreamRecord list" where
  "overflowing_records =
     [[(''MonitoringLocationID'', ''LOC001''), (''CharacteristicName'', ''Temperature, water''),
       (''ResultValue'', ''1e308'')],
      [(''MonitoringLocationID'', ''LOC001''), (''CharacteristicName'', ''Temperature, water''),
       (''ResultValue'', ''1e308'')]]"

text \<open>A reading that is the zero of negative sign.\<close>

definition negative_zero_records :: "DataStreamRecord list" where
  "negative_zero_records =
     [[(''MonitoringLocationID'', ''LOC001''), (''CharacteristicName'', ''Temperature, water''),
       (''ResultValue'', ''-0.0'')]]"

text \<open>
  The component before any file, and after the lake records were processed with
  success.
\<close>

definition initial_state :: State where
  "initial_state =
     \<lparr>records = [], recordsIndex = [], monitoringLocations = [], selectedLocation = [],
      result = None, isProcessing = False, error = None, parseProgress = Num 0,
      totalRows = 0, searchQuery = []\<rparr>"

definition loaded_state :: State where
  "loaded_state = processFile code_unit_order [] (Inr lake_records) initial_state"

text \<open>
  Readings of one location: good ones, one of them with white space before and a unit
  behind the number, the infinite ones, another characteristic, texts that are no number,
  the empty text and a record without \<open>ResultValue\<close>; and one reading of a second
  location.
\<close>

definition temperature_records :: "DataStreamRecord list" where
  "temperature_records =
     [[(''MonitoringLocationID'', ''LOC001''), (''CharacteristicName'', ''Temperature, water''),
       (''ResultValue'', ''15.5'')],
      [(''MonitoringLocationID'', ''LOC001''), (''CharacteristicName'', ''Temperature, water''),
       (''ResultValue'', ''Infinity'')],
      [(''MonitoringLocationID'', ''LOC001''), (''CharacteristicName'', ''Temperature, water''),
       (''ResultValue'', ''16.5'')],
      [(''MonitoringLocationID'', ''LOC001''), (''CharacteristicName'', ''pH''),
       (''ResultValue'', ''7.5'')],
      [(''MonitoringLocationID'', ''LOC001''), (''CharacteristicName'', ''Temperature, water''),
       (''ResultValue'', ''invalid'')],
      [(''MonitoringLocationID'', ''LOC001''), (''CharacteristicName'', ''Temperature, water'')],
      [(''MonitoringLocationID'', ''LOC001''), (''CharacteristicName'', ''Temperature, water''),
       (''ResultValue'', '' 18.5 C'')],
      [(''MonitoringLocationID'', ''LOC001''), (''CharacteristicName'', ''Temperature, water''),
       (''ResultValue'', ''-Infinity'')],
      [(''MonitoringLocationID'', ''LOC001''), (''CharacteristicName'', ''Temperature, water''),
       (''ResultValue'', ''NaN'')],
      [(''MonitoringLocationID'', ''LOC001''), (''CharacteristicName'', ''Temperature, water''),
       (''ResultValue'', [])],
      [(''MonitoringLocationID'', ''LOC001''), (''CharacteristicName'', ''temperature, water''),
       (''ResultValue'', ''99'')],
      [(''MonitoringLocationID'', ''LOC001''), (''CharacteristicName'', ''Temperature, water''),
       (''ResultValue'', ''17.5'')],
      [(''MonitoringLocationID'', ''LOC002''), (''CharacteristicName'', ''Temperature, water''),
       (''ResultValue'', ''20.0'')]]"

section \<open>Properties of the index\<close>

lemma map_of_index_record:
  "map_of (index_record r m) L =
     (if field r ''MonitoringLocationID'' = Some L \<and> L \<noteq> []
      then Some ((case map_of m L of None \<Rightarrow> [] | Some g \<Rightarrow> g) @ [r])
      else map_of m L)"
  by (cases "field r ''MonitoringLocationID''")
     (auto simp: index_record_def truthy_def map_has_def map_set_def get_push_def Let_def
        map_of_map_entry update_conv' split: option.splits)

lemma map_of_fold_index_record:
  "map_of (fold index_record R m) L =
     (if L = [] \<or> records_of_location R L = [] then map_of m L
      else Some ((case map_of m L of None \<Rightarrow> [] | Some g \<Rightarrow> g) @ records_of_location R L))"
proof (induction R arbitrary: m)
  case Nil
  then show ?case by (simp add: records_of_location_def)
next
  case (Cons r R)
  show ?case
    unfolding fold_simps Cons.IH [of "index_record r m"] map_of_index_record
    by (auto simp: records_of_location_def)
qed

lemma update_fresh_key: "k \<notin> fst ` set m \<Longrightarrow> AList.update k v m = m @ [(k, v)]"
  by (induction m) auto

lemma map_entry_last: "k \<notin> fst ` set m \<Longrightarrow> AList.map_entry k f (m @ [(k, v)]) = m @ [(k, f v)]"
  by (induction m) auto

lemma index_record_eq:
  "index_record r m =
     (case field r ''MonitoringLocationID'' of
        None \<Rightarrow> m
      | Some k \<Rightarrow>
          if k = [] then m
          else if k \<in> fst ` set m then AList.map_entry k (\<lambda>g. g @ [r]) m
          else m @ [(k, [r])])"
  by (auto simp: index_record_def truthy_def map_has_def map_set_def get_push_def Let_def
        update_fresh_key map_entry_last map_of_eq_None_iff split: option.splits)

lemma distinct_index_record:
  "distinct (map fst m) \<Longrightarrow> distinct (map fst (index_record r m))"
  by (auto simp: index_record_eq distinct_map_entry split: option.splits)

lemma distinct_fold_index_record:
  "distinct (map fst m) \<Longrightarrow> distinct (map fst (fold index_record R m))"
  by (induction R arbitrary: m) (simp_all add: distinct_index_record)

lemma group_sizes_Nil: "group_sizes [] = 0"
  by (simp add: group_sizes_def)

lemma group_sizes_map_entry:
  "k \<in> fst ` set m \<Longrightarrow> group_sizes (AList.map_entry k (\<lambda>g. g @ [r]) m) = Suc (group_sizes m)"
  by (induction m) (auto simp: group_sizes_def)

lemma group_sizes_index_record:
  "group_sizes (index_record r m) =
     group_sizes m + (if truthy (field r ''MonitoringLocationID'') then 1 else 0)"
  by (auto simp: index_record_eq truthy_def group_sizes_map_entry split: option.splits)
     (simp add: group_sizes_def)

lemma group_sizes_fold_index_record:
  "group_sizes (fold index_record R m) =
     group_sizes m + length (filter (\<lambda>r. truthy (field r ''MonitoringLocationID'')) R)"
  by (induction R arbitrary: m) (simp_all add: group_sizes_index_record)

lemma index_entry_is_group:
  assumes "(k, g) \<in> set (indexRecordsByLocation R)"
  shows "k \<noteq> [] \<and> g \<noteq> [] \<and> g = records_of_location R k"
proof -
  have "distinct (map fst (indexRecordsByLocation R))"
    unfolding indexRecordsByLocation_def by (rule distinct_fold_index_record) simp
  with assms have "map_of (indexRecordsByLocation R) k = Some g"
    by simp
  then show ?thesis
    unfolding indexRecordsByLocation_def map_of_fold_index_record
    by (auto split: if_splits)
qed

lemma index_record_skip:
  "\<not> truthy (field r ''MonitoringLocationID'') \<Longrightarrow> index_record r m = m"
  by (simp add: index_record_def)

lemma fold_index_record_filter:
  "fold index_record (filter (\<lambda>r. truthy (field r ''MonitoringLocationID'')) R) m =
   fold index_record R m"
  by (induction R arbitrary: m) (simp_all add: index_record_skip)

text \<open>
  C2. The index maps a location id \<open>L\<close> to exactly the records of the input whose
  \<open>MonitoringLocationID\<close> is \<open>L\<close>, in input order (and has no entry for \<open>L\<close> when \<open>L\<close> is
  empty or no record carries it); the keys of the index are distinct, and the group
  lengths add up to the number of records whose \<open>MonitoringLocationID\<close> is present and
  non-empty.
\<close>

theorem index_groups_are_input_subsequences:
  "distinct (map fst (indexRecordsByLocation R)) \<and>
   map_get (indexRecordsByLocation R) L =
     (if L = [] \<or> records_of_location R L = [] then None
      else Some (records_of_location R L)) \<and>
   group_sizes (indexRecordsByLocation R) =
     length (filter (\<lambda>r. truthy (field r ''MonitoringLocationID'')) R)"
proof -
  have "distinct (map fst (indexRecordsByLocation R))"
    unfolding indexRecordsByLocation_def by (rule distinct_fold_index_record) simp
  moreover have "map_get (indexRecordsByLocation R) L =
     (if L = [] \<or> records_of_location R L = [] then None
      else Some (records_of_location R L))"
    by (simp add: map_get_def indexRecordsByLocation_def map_of_fold_index_record)
  moreover have "group_sizes (indexRecordsByLocation R) =
     length (filter (\<lambda>r. truthy (field r ''MonitoringLocationID'')) R)"
    by (simp add: indexRecordsByLocation_def group_sizes_fold_index_record group_sizes_Nil)
  ultimately show ?thesis by blast
qed

text \<open>
  C6. A record whose \<open>MonitoringLocationID\<close> is absent or empty is never indexed: the
  index has no entry for the empty string, every entry has a non-empty key and a
  non-empty group whose records all carry that key, and the index is the one built
  from the input with those records removed.
\<close>

theorem empty_location_id_never_indexed:
  "\<not> map_has (indexRecordsByLocation R) [] \<and>
   list_all (\<lambda>(k, g). k \<noteq> [] \<and> g \<noteq> [] \<and>
       list_all (\<lambda>r. field r ''MonitoringLocationID'' = Some k) g)
     (indexRecordsByLocation R) \<and>
   indexRecordsByLocation (filter (\<lambda>r. truthy (field r ''MonitoringLocationID'')) R) =
     indexRecordsByLocation R"
proof -
  have "\<not> map_has (indexRecordsByLocation R) []"
    by (simp add: map_has_def indexRecordsByLocation_def map_of_fold_index_record)
  moreover have "list_all (\<lambda>(k, g). k \<noteq> [] \<and> g \<noteq> [] \<and>
       list_all (\<lambda>r. field r ''MonitoringLocationID'' = Some k) g)
     (indexRecordsByLocation R)"
    unfolding list_all_iff
  proof (clarify, intro conjI)
    fix k g assume e: "(k, g) \<in> set (indexRecordsByLocation R)"
    from index_entry_is_group [OF e] show "k \<noteq> []" and "g \<noteq> []"
      by blast+
    from index_entry_is_group [OF e]
    show "\<forall>r\<in>set g. field r ''MonitoringLocationID'' = Some k"
      by (auto simp: records_of_location_def)
  qed
  moreover have
    "indexRecordsByLocation (filter (\<lambda>r. truthy (field r ''MonitoringLocationID'')) R) =
     indexRecordsByLocation R"
    by (simp add: indexRecordsByLocation_def fold_index_record_filter)
  ultimately show ?thesis by blast
qed

section \<open>Properties of the rounding\<close>

lemma pow2_powi: "pow2 k = 2 powi k"
  by (simp add: pow2_def power_int_def field_simps)

lemma pow2_pos [simp]: "0 < pow2 k"
  by (simp add: pow2_powi)

lemma pow2_nonzero [simp]: "pow2 k \<noteq> 0"
  using pow2_pos [of k] by linarith

lemma pow2_abs [simp]: "\<bar>pow2 k\<bar> = pow2 k"
  using pow2_pos [of k] by linarith

lemma pow2_add: "pow2 (a + b) = pow2 a * pow2 b"
  by (simp add: pow2_powi power_int_add)

lemma pow2_mono: "a \<le> b \<Longrightarrow> pow2 a \<le> pow2 b"
  by (simp add: pow2_powi power_int_increasing)

lemma pow2_strict_mono: "a < b \<Longrightarrow> pow2 a < pow2 b"
  by (simp add: pow2_powi power_int_strict_increasing)

lemma pow2_of_nat: "pow2 (int n) = 2 ^ n"
  by (simp add: pow2_def)

lemma pow2_nat: "0 \<le> k \<Longrightarrow> 2 ^ nat k = pow2 k"
  by (simp add: pow2_def)

lemma pow2_diff: "pow2 (a - b) = pow2 a / pow2 b"
  by (simp add: pow2_powi power_int_diff)

lemma binade_bracket:
  assumes "0 < x"
  defines "k \<equiv> bitlen (fst (quotient_of x)) - bitlen (snd (quotient_of x))"
  shows "pow2 (k - 1) < x" and "x < pow2 (k + 1)"
proof -
  obtain a b where q: "quotient_of x = (a, b)" by (cases "quotient_of x")
  then have b: "0 < b" and x: "x = of_int a / of_int b"
    by (simp_all add: quotient_of_denom_pos quotient_of_div)
  with assms(1) have a: "0 < a"
    by (simp add: zero_less_divide_iff)
  from bitlen_bounds [OF a] have a1: "(2::int) ^ nat (bitlen a - 1) \<le> a" and a2: "a < 2 ^ nat (bitlen a)"
    by simp_all
  from bitlen_bounds [OF b] have b1: "(2::int) ^ nat (bitlen b - 1) \<le> b" and b2: "b < 2 ^ nat (bitlen b)"
    by simp_all
  have la: "1 \<le> bitlen a" and lb: "1 \<le> bitlen b"
    using a b by (simp_all add: bitlen_alt_def) 
  have ra1: "pow2 (bitlen a - 1) \<le> of_int a"
  proof -
    have "(of_int ((2::int) ^ nat (bitlen a - 1)) :: rat) \<le> of_int a"
      using a1 by (simp only: of_int_le_iff)
    then show ?thesis using la by (simp add: pow2_nat)
  qed
  have ra2: "of_int a < pow2 (bitlen a)"
  proof -
    have "(of_int a :: rat) < of_int ((2::int) ^ nat (bitlen a))"
      using a2 by (simp only: of_int_less_iff)
    then show ?thesis using la by (simp add: pow2_nat)
  qed
  have rb1: "pow2 (bitlen b - 1) \<le> of_int b"
  proof -
    have "(of_int ((2::int) ^ nat (bitlen b - 1)) :: rat) \<le> of_int b"
      using b1 by (simp only: of_int_le_iff)
    then show ?thesis using lb by (simp add: pow2_nat)
  qed
  have rb2: "of_int b < pow2 (bitlen b)"
  proof -
    have "(of_int b :: rat) < of_int ((2::int) ^ nat (bitlen b))"
      using b2 by (simp only: of_int_less_iff)
    then show ?thesis using lb by (simp add: pow2_nat)
  qed
  have k: "k = bitlen a - bitlen b"
    by (simp add: k_def q)
  have bpos: "(0::rat) < of_int b" using b by simp
  have "k - 1 = bitlen a - 1 - bitlen b" by (simp add: k)
  then have "pow2 (k - 1) = pow2 (bitlen a - 1) / pow2 (bitlen b)"
    by (simp only: pow2_diff)
  also have "\<dots> \<le> of_int a / pow2 (bitlen b)"
    using ra1 by (intro divide_right_mono) (simp_all add: less_imp_le)
  also have "\<dots> < of_int a / of_int b"
    using rb2 bpos a by (intro divide_strict_left_mono) simp_all
  finally show "pow2 (k - 1) < x" by (simp add: x)
  have "x = of_int a / of_int b" by (fact x)
  also have "\<dots> < pow2 (bitlen a) / of_int b"
    using ra2 bpos by (intro divide_strict_right_mono) simp_all
  also have "\<dots> \<le> pow2 (bitlen a) / pow2 (bitlen b - 1)"
    using rb1 bpos by (intro divide_left_mono) (simp_all add: less_imp_le)
  also have "\<dots> = pow2 (k + 1)"
  proof -
    have "k + 1 = bitlen a - (bitlen b - 1)" by (simp add: k)
    then show ?thesis by (simp only: pow2_diff)
  qed
  finally show "x < pow2 (k + 1)" .
qed

lemma binade_bounds:
  assumes "0 < x"
  shows "pow2 (binade x) \<le> x" and "x < pow2 (binade x + 1)"
  using binade_bracket [OF assms]
  by (auto simp: binade_def Let_def split_def not_le less_imp_le)

lemma binade_unique:
  assumes "pow2 e \<le> x" and "x < pow2 (e + 1)"
  shows "binade x = e"
proof -
  have x: "0 < x" using assms(1) pow2_pos [of e] by linarith
  note b = binade_bounds [OF x]
  have "\<not> binade x < e"
  proof
    assume "binade x < e"
    then have "pow2 (binade x + 1) \<le> pow2 e" by (intro pow2_mono) simp
    with b(2) assms(1) show False by linarith
  qed
  moreover have "\<not> e < binade x"
  proof
    assume "e < binade x"
    then have "pow2 (e + 1) \<le> pow2 (binade x)" by (intro pow2_mono) simp
    with b(1) assms(2) show False by linarith
  qed
  ultimately show ?thesis by linarith
qed

lemma round_half_even_of_int [simp]: "round_half_even (of_int n) = n"
  by (simp add: round_half_even_def)

lemma round_half_even_le:
  assumes "q \<le> of_int N"
  shows "round_half_even q \<le> N"
proof -
  have fl: "\<lfloor>q\<rfloor> \<le> N" using assms by (simp add: floor_le_iff)
  show ?thesis
  proof (cases "\<lfloor>q\<rfloor> = N")
    case True
    then have "of_int N \<le> q" using of_int_floor_le [of q] by simp
    with assms have "q = of_int N" by simp
    then show ?thesis by simp
  next
    case False
    with fl have "\<lfloor>q\<rfloor> + 1 \<le> N" by simp
    then show ?thesis
      by (simp add: round_half_even_def Let_def)
  qed
qed

lemma round_half_even_ge:
  assumes "of_int N \<le> q"
  shows "N \<le> round_half_even q"
proof -
  have "N \<le> \<lfloor>q\<rfloor>" using assms by (simp add: le_floor_iff)
  then show ?thesis by (simp add: round_half_even_def Let_def)
qed

lemma round_to_double_eval:
  assumes "x \<noteq> 0" and "pow2 e \<le> \<bar>x\<bar>" and "\<bar>x\<bar> < pow2 (e + 1)"
  shows "round_to_double x =
     (let e' = max e (- 1022);
          u = pow2 (e' - 52);
          y = of_int (round_half_even (x / u)) * u
      in if pow2 1024 \<le> y then PosInfinity
         else if y \<le> - pow2 1024 then NegInfinity
         else if y = 0 \<and> x < 0 then NegZero
         else Num y)"
  using assms(1) by (simp add: round_to_double_def binade_unique [OF assms(2,3)])

lemma round_to_double_exact:
  assumes x: "x = of_int m * pow2 k" and m: "\<bar>m\<bar> < 2 ^ 53" and k: "- 1074 \<le> k"
    and fin: "\<bar>x\<bar> < pow2 1024"
  shows "round_to_double x = Num x"
proof (cases "x = 0")
  case True
  then show ?thesis by (simp add: round_to_double_def)
next
  case False
  define e where "e = max (binade \<bar>x\<bar>) (- 1022)"
  have pos: "0 < \<bar>x\<bar>" using False by simp
  have "\<bar>x\<bar> = of_int \<bar>m\<bar> * pow2 k"
    by (simp add: x abs_mult)
  also have "\<dots> < of_int (2 ^ 53) * pow2 k"
    using m by (intro mult_strict_right_mono) (simp_all only: of_int_less_iff pow2_pos)
  also have "\<dots> = pow2 (k + 53)"
  proof -
    have "(of_int (2 ^ 53) :: rat) = pow2 53" by (simp add: pow2_def)
    then show ?thesis by (simp add: pow2_add mult.commute)
  qed
  finally have "\<bar>x\<bar> < pow2 (k + 53)" .
  with binade_bounds(1) [OF pos] have "pow2 (binade \<bar>x\<bar>) < pow2 (k + 53)"
    by linarith
  then have "binade \<bar>x\<bar> < k + 53"
    using pow2_mono [of "k + 53" "binade \<bar>x\<bar>"] by (cases "binade \<bar>x\<bar> < k + 53") auto
  with k have e: "e \<le> k + 52"
    by (simp add: e_def)
  define d where "d = nat (k + 52 - e)"
  have kd: "k = (e - 52) + int d"
    using e by (simp add: d_def)
  have "x / pow2 (e - 52) = of_int m * pow2 (int d)"
    by (simp add: x kd pow2_add)
  also have "\<dots> = of_int (m * 2 ^ d)"
    by (simp add: pow2_of_nat)
  finally have q: "x / pow2 (e - 52) = of_int (m * 2 ^ d)" .
  have y: "of_int (round_half_even (x / pow2 (e - 52))) * pow2 (e - 52) = x"
    unfolding q round_half_even_of_int
    by (simp add: x kd pow2_add pow2_of_nat)
  from fin have "\<not> pow2 1024 \<le> x" "\<not> x \<le> - pow2 1024"
    by (simp_all add: abs_less_iff not_le) 
  with False show ?thesis
    by (simp add: round_to_double_def e_def [symmetric] Let_def y)
qed

lemma round_to_double_int:
  "\<bar>m\<bar> < 2 ^ 53 \<Longrightarrow> round_to_double (of_int m) = Num (of_int m)"
proof -
  assume m: "\<bar>m\<bar> < 2 ^ 53"
  have "\<bar>of_int m :: rat\<bar> = of_int \<bar>m\<bar>" by simp
  also have "\<dots> < of_int (2 ^ 53)" using m by (simp only: of_int_less_iff)
  also have "\<dots> < pow2 1024" by (simp add: pow2_def)
  finally have "\<bar>of_int m :: rat\<bar> < pow2 1024" .
  then show ?thesis
    using round_to_double_exact [of "of_int m" m 0] m by (simp add: pow2_def)
qed

lemma round_to_double_bounded:
  assumes x: "0 < x" "x \<le> B"
    and B: "B = of_int M * pow2 K" "B < pow2 (K + 53)" "- 1074 \<le> K" "B < pow2 1024"
  shows "\<exists>y. round_to_double x = Num y \<and> 0 \<le> y \<and> y \<le> B"
proof -
  define e where "e = max (binade x) (- 1022)"
  have ax: "\<bar>x\<bar> = x" using x by simp
  have "pow2 (binade x) \<le> x" using binade_bounds(1) [OF x(1)] .
  also have "x < pow2 (K + 53)" using x(2) B(2) by simp
  finally have "binade x < K + 53"
    using pow2_mono [of "K + 53" "binade x"] by (cases "binade x < K + 53") auto
  with B(3) have e: "e \<le> K + 52"
    by (simp add: e_def)
  define d where "d = nat (K + 52 - e)"
  have kd: "K = (e - 52) + int d"
    using e by (simp add: d_def)
  define u where "u = pow2 (e - 52)"
  have u: "0 < u" by (simp add: u_def)
  have Bu: "B / u = of_int (M * 2 ^ d)"
    by (simp add: B(1) u_def kd pow2_add pow2_of_nat)
  have "x / u \<le> B / u"
    using x(2) u by (simp add: divide_right_mono less_imp_le)
  then have up: "round_half_even (x / u) \<le> M * 2 ^ d"
    unfolding Bu by (rule round_half_even_le)
  have "of_int 0 \<le> x / u" using x(1) u by (simp add: less_imp_le)
  then have lo: "0 \<le> round_half_even (x / u)"
    by (rule round_half_even_ge)
  define y where "y = of_int (round_half_even (x / u)) * u"
  have y0: "0 \<le> y" using lo u by (simp add: y_def)
  have "y \<le> of_int (M * 2 ^ d) * u"
    unfolding y_def using up u by (intro mult_right_mono) (simp_all only: of_int_le_iff less_imp_le)
  also have "\<dots> = B" using Bu u by (simp add: field_simps)
  finally have yB: "y \<le> B" .
  from yB B(4) have "\<not> pow2 1024 \<le> y" by simp
  moreover from y0 have "\<not> y \<le> - pow2 1024"
    using pow2_pos [of 1024] by linarith
  moreover have "x \<noteq> 0" "\<not> x < 0" using x(1) by simp_all
  ultimately have "round_to_double x = Num y"
    by (simp add: round_to_double_def ax e_def [symmetric] u_def [symmetric] y_def [symmetric]
          Let_def)
  with y0 yB show ?thesis by blast
qed

lemma round_to_double_overflow:
  assumes "pow2 1024 \<le> x"
  shows "round_to_double x = PosInfinity"
proof -
  have x: "0 < x" using assms pow2_pos [of 1024] by linarith
  then have ax: "\<bar>x\<bar> = x" by simp
  have "pow2 1024 < pow2 (binade x + 1)"
    using assms binade_bounds(2) [OF x] by linarith
  then have b: "1024 \<le> binade x"
    using pow2_mono [of "binade x + 1" 1024] by (cases "1024 \<le> binade x") auto
  then have e: "max (binade x) (- 1022) = binade x" by simp
  define u where "u = pow2 (binade x - 52)"
  have u: "0 < u" by (simp add: u_def)
  have "pow2 (binade x) / u = pow2 52"
    by (simp add: u_def pow2_diff [symmetric])
  also have "\<dots> = of_int (2 ^ 52)" by (simp add: pow2_def)
  finally have "of_int (2 ^ 52) \<le> x / u"
    using binade_bounds(1) [OF x] u by (metis divide_right_mono less_imp_le)
  then have "2 ^ 52 \<le> round_half_even (x / u)"
    by (rule round_half_even_ge)
  then have "of_int (2 ^ 52) * u \<le> of_int (round_half_even (x / u)) * u"
    using u by (intro mult_right_mono) (simp_all only: of_int_le_iff less_imp_le)
  moreover have "of_int (2 ^ 52) * u = pow2 (binade x)"
  proof -
    have a: "(of_int (2 ^ 52) :: rat) = pow2 52" by (simp add: pow2_def)
    have "pow2 52 * pow2 (binade x - 52) = pow2 (52 + (binade x - 52))"
      by (simp only: pow2_add)
    then show ?thesis unfolding a u_def by simp
  qed
  moreover have "pow2 1024 \<le> pow2 (binade x)" using b by (rule pow2_mono)
  ultimately have "pow2 1024 \<le> of_int (round_half_even (x / u)) * u" by linarith
  then show ?thesis
    using x by (simp add: round_to_double_def ax e u_def [symmetric] Let_def)
qed

lemma round_to_double_zero [simp]: "round_to_double 0 = Num 0"
  by (simp add: round_to_double_def)

lemma round_to_double_numeral:
  "(numeral n :: int) < 9007199254740992 \<Longrightarrow> round_to_double (numeral n) = Num (numeral n)"
  using round_to_double_int [of "numeral n"] by simp

lemma round_to_double_one: "round_to_double 1 = Num 1"
  using round_to_double_int [of 1] by simp

lemma floor_rat_numeral_divide:
  "\<lfloor>numeral a / numeral b :: rat\<rfloor> = numeral a div numeral b"
  using floor_divide_of_int_eq [of "numeral a" "numeral b", where ?'a = rat] by simp

lemma round_to_double_half:
  assumes "\<bar>m\<bar> < 2 ^ 53"
  shows "round_to_double (of_int m / 2) = Num (of_int m / 2)"
proof -
  have "\<bar>of_int m / 2 :: rat\<bar> \<le> of_int \<bar>m\<bar>"
    by simp
  also have "\<dots> < of_int (2 ^ 53)"
    using assms by (simp only: of_int_less_iff)
  also have "\<dots> < pow2 1024"
    by (simp add: pow2_def)
  finally have "\<bar>of_int m / 2 :: rat\<bar> < pow2 1024" .
  then show ?thesis
    using assms round_to_double_exact [of "of_int m / 2" m "- 1"]
    by (simp add: pow2_def)
qed

lemma round_to_double_half_numeral:
  "(numeral n :: int) < 9007199254740992 \<Longrightarrow>
   round_to_double (numeral n / 2) = Num (numeral n / 2)"
  using round_to_double_half [of "numeral n"] by simp

lemma round_to_double_one_half: "round_to_double (1 / 2) = Num (1 / 2)"
  using round_to_double_half [of 1] by simp

text \<open>\<open>1e16\<close> is a binary64 value; \<open>1e16 + 1\<close> lies halfway to the next one.\<close>

lemma round_to_double_1e16: "round_to_double 10000000000000000 = Num 10000000000000000"
  using round_to_double_exact [of 10000000000000000 152587890625 16]
  by (simp add: pow2_def)

lemma round_to_double_1e16_plus_1: "round_to_double 10000000000000001 = Num 10000000000000000"
proof -
  have "round_to_double 10000000000000001 =
     (let e' = max 53 (- 1022);
          u = pow2 (e' - 52);
          y = of_int (round_half_even (10000000000000001 / u)) * u
      in if pow2 1024 \<le> y then PosInfinity
         else if y \<le> - pow2 1024 then NegInfinity
         else if y = 0 \<and> (10000000000000001 :: rat) < 0 then NegZero
         else Num y)"
    by (rule round_to_double_eval) (simp_all add: pow2_def)
  also have "\<dots> = Num 10000000000000000"
    by (simp add: Let_def pow2_def round_half_even_def floor_rat_numeral_divide)
  finally show ?thesis .
qed

text \<open>\<open>58 / 100 * 100\<close> is less than 58.\<close>

lemma round_to_double_58_percent:
  "round_to_double (29 / 50) = Num (5224175567749775 / 9007199254740992)"
  "round_to_double (130604389193744375 / 2251799813685248) =
     Num (8162774324609023 / 140737488355328)"
proof -
  have "round_to_double (29 / 50) =
     (let e' = max (- 1) (- 1022);
          u = pow2 (e' - 52);
          y = of_int (round_half_even (29 / 50 / u)) * u
      in if pow2 1024 \<le> y then PosInfinity
         else if y \<le> - pow2 1024 then NegInfinity
         else if y = 0 \<and> (29 / 50 :: rat) < 0 then NegZero
         else Num y)"
    by (rule round_to_double_eval) (simp_all add: pow2_def)
  also have "\<dots> = Num (5224175567749775 / 9007199254740992)"
    by (simp add: Let_def pow2_def round_half_even_def floor_rat_numeral_divide)
  finally show "round_to_double (29 / 50) = Num (5224175567749775 / 9007199254740992)" .
  have "round_to_double (130604389193744375 / 2251799813685248) =
     (let e' = max 5 (- 1022);
          u = pow2 (e' - 52);
          y = of_int (round_half_even (130604389193744375 / 2251799813685248 / u)) * u
      in if pow2 1024 \<le> y then PosInfinity
         else if y \<le> - pow2 1024 then NegInfinity
         else if y = 0 \<and> (130604389193744375 / 2251799813685248 :: rat) < 0 then NegZero
         else Num y)"
    by (rule round_to_double_eval) (simp_all add: pow2_def)
  also have "\<dots> = Num (8162774324609023 / 140737488355328)"
    by (simp add: Let_def pow2_def round_half_even_def floor_rat_numeral_divide)
  finally show "round_to_double (130604389193744375 / 2251799813685248) =
     Num (8162774324609023 / 140737488355328)" .
qed

text \<open>
  The binary64 value of \<open>1e308\<close> is a little above it; twice that value is beyond the
  largest one.
\<close>

lemma round_to_double_1e308:
  "round_to_double 100000000000000000000000000000000000000000000000000000000000000000000000000000000000000000000000000000000000000000000000000000000000000000000000000000000000000000000000000000000000000000000000000000000000000000000000000000000000000000000000000000000000000000000000000000000000000000000000000000000000000000000 =
     Num 100000000000000001097906362944045541740492309677311846336810682903157585404911491537163328978494688899061249669721172515611590283743140088328307009198146046031271664502933027185697489699588559043338384466165001178426897626212945177628091195786707458122783970171784415105291802893207873272974885715430223118336"
proof -
  have "round_to_double 100000000000000000000000000000000000000000000000000000000000000000000000000000000000000000000000000000000000000000000000000000000000000000000000000000000000000000000000000000000000000000000000000000000000000000000000000000000000000000000000000000000000000000000000000000000000000000000000000000000000000000000 =
     (let e' = max 1023 (- 1022);
          u = pow2 (e' - 52);
          y = of_int (round_half_even (100000000000000000000000000000000000000000000000000000000000000000000000000000000000000000000000000000000000000000000000000000000000000000000000000000000000000000000000000000000000000000000000000000000000000000000000000000000000000000000000000000000000000000000000000000000000000000000000000000000000000000000 / u)) * u
      in if pow2 1024 \<le> y then PosInfinity
         else if y \<le> - pow2 1024 then NegInfinity
         else if y = 0 \<and> (100000000000000000000000000000000000000000000000000000000000000000000000000000000000000000000000000000000000000000000000000000000000000000000000000000000000000000000000000000000000000000000000000000000000000000000000000000000000000000000000000000000000000000000000000000000000000000000000000000000000000000000 :: rat) < 0 then NegZero
         else Num y)"
    by (rule round_to_double_eval) (simp_all add: pow2_def)
  also have "\<dots> = Num 100000000000000001097906362944045541740492309677311846336810682903157585404911491537163328978494688899061249669721172515611590283743140088328307009198146046031271664502933027185697489699588559043338384466165001178426897626212945177628091195786707458122783970171784415105291802893207873272974885715430223118336"
    by (simp add: Let_def pow2_def round_half_even_def floor_rat_numeral_divide)
  finally show ?thesis .
qed

lemma round_to_double_1e308_value:
  "round_to_double 100000000000000001097906362944045541740492309677311846336810682903157585404911491537163328978494688899061249669721172515611590283743140088328307009198146046031271664502933027185697489699588559043338384466165001178426897626212945177628091195786707458122783970171784415105291802893207873272974885715430223118336 =
     Num 100000000000000001097906362944045541740492309677311846336810682903157585404911491537163328978494688899061249669721172515611590283743140088328307009198146046031271664502933027185697489699588559043338384466165001178426897626212945177628091195786707458122783970171784415105291802893207873272974885715430223118336"
  using round_to_double_exact [of 100000000000000001097906362944045541740492309677311846336810682903157585404911491537163328978494688899061249669721172515611590283743140088328307009198146046031271664502933027185697489699588559043338384466165001178426897626212945177628091195786707458122783970171784415105291802893207873272974885715430223118336 5010420900022432 971]
  by (simp add: pow2_def)

lemma round_to_double_1e308_twice:
  "round_to_double (100000000000000001097906362944045541740492309677311846336810682903157585404911491537163328978494688899061249669721172515611590283743140088328307009198146046031271664502933027185697489699588559043338384466165001178426897626212945177628091195786707458122783970171784415105291802893207873272974885715430223118336 + 100000000000000001097906362944045541740492309677311846336810682903157585404911491537163328978494688899061249669721172515611590283743140088328307009198146046031271664502933027185697489699588559043338384466165001178426897626212945177628091195786707458122783970171784415105291802893207873272974885715430223118336) = PosInfinity"
  by (rule round_to_double_overflow) (simp add: pow2_def)

lemma js_divide_Num [simp]:
  "js_divide (Num x) (Num y) =
     (if y = 0 then (if x = 0 then NaN else if 0 < x then PosInfinity else NegInfinity)
      else if x = 0 then signed_zero (y < 0)
      else round_to_double (x / y))"
  by (auto simp: js_divide_def is_negative_def isNaN_def isFinite_def is_zero_def
        signed_infinity_def signed_zero_def)

lemma js_multiply_Num [simp]:
  "js_multiply (Num x) (Num y) =
     (if x = 0 \<or> y = 0 then signed_zero ((x < 0) \<noteq> (y < 0)) else round_to_double (x * y))"
  by (auto simp: js_multiply_def is_negative_def isNaN_def isFinite_def is_zero_def
        signed_zero_def)

lemma js_multiply_NaN [simp]: "js_multiply NaN y = NaN"
  by (simp add: js_multiply_def isNaN_def)

lemmas double_simps =
  round_to_double_numeral round_to_double_half_numeral round_to_double_one
  round_to_double_one_half round_to_double_1e16 round_to_double_1e16_plus_1
  signed_zero_def

section \<open>Properties of the aggregation\<close>

lemma round_to_double_not_NaN: "round_to_double x \<noteq> NaN"
  by (simp add: round_to_double_def Let_def)

lemma negate_NaN_iff: "negate v = NaN \<longleftrightarrow> v = NaN"
  by (cases v) (simp_all add: negate_def)

lemma unsigned_decimal_None_iff:
  "unsigned_decimal s = None \<longleftrightarrow>
     \<not> (case s of [] \<Rightarrow> False
        | c # r \<Rightarrow> is_digit c \<or>
                   (c = CHR ''.'' \<and> (case r of [] \<Rightarrow> False | d # _ \<Rightarrow> is_digit d)))"
proof (cases s)
  case Nil
  then show ?thesis by (simp add: unsigned_decimal_def)
next
  case (Cons c r)
  have dot: "\<not> is_digit CHR ''.''" by (simp add: is_digit_def)
  show ?thesis
  proof (cases "is_digit c")
    case True
    then show ?thesis
      by (simp add: Cons unsigned_decimal_def Let_def split_def)
  next
    case False
    then show ?thesis
      using dot
      by (cases r) (auto simp: Cons unsigned_decimal_def Let_def split_def)
  qed
qed

lemma str_unsigned_NaN_iff:
  "(case str_unsigned_decimal_literal u of None \<Rightarrow> NaN | Some (v, _) \<Rightarrow> v) = NaN \<longleftrightarrow>
     \<not> (take 8 u = ''Infinity'' \<or>
        (case u of [] \<Rightarrow> False
         | c # r \<Rightarrow> is_digit c \<or>
                    (c = CHR ''.'' \<and> (case r of [] \<Rightarrow> False | d # _ \<Rightarrow> is_digit d))))"
proof (cases "take 8 u = ''Infinity''")
  case True
  then show ?thesis by (simp add: str_unsigned_decimal_literal_def)
next
  case False
  show ?thesis
  proof (cases "unsigned_decimal u")
    case None
    with False show ?thesis
      using unsigned_decimal_None_iff [of u]
      by (simp add: str_unsigned_decimal_literal_def)
  next
    case (Some p)
    with False show ?thesis
      using unsigned_decimal_None_iff [of u]
      by (simp add: str_unsigned_decimal_literal_def split_def round_to_double_not_NaN)
  qed
qed

lemma str_decimal_NaN_iff:
  "(case str_decimal_literal t of None \<Rightarrow> NaN | Some (v, _) \<Rightarrow> v) = NaN \<longleftrightarrow>
     \<not> (let u = (case t of [] \<Rightarrow> [] | c # r \<Rightarrow> if c = CHR ''+'' \<or> c = CHR ''-'' then r else t)
        in take 8 u = ''Infinity'' \<or>
           (case u of
              [] \<Rightarrow> False
            | c # r \<Rightarrow> is_digit c \<or>
                       (c = CHR ''.'' \<and> (case r of [] \<Rightarrow> False | d # _ \<Rightarrow> is_digit d))))"
proof (cases t)
  case Nil
  then show ?thesis
    by (simp add: str_decimal_literal_def)
next
  case (Cons c r)
  show ?thesis
  proof (cases "c = CHR ''+'' \<or> c = CHR ''-''")
    case True
    then show ?thesis
      using str_unsigned_NaN_iff [of r]
      by (cases "str_unsigned_decimal_literal r")
         (auto simp: str_decimal_literal_def Cons Let_def negate_NaN_iff)
  next
    case False
    then show ?thesis
      using str_unsigned_NaN_iff [of "c # r"]
      by (simp add: str_decimal_literal_def Cons Let_def)
  qed
qed

text \<open>\<open>parseFloat\<close> gives a number exactly for the texts with a numeric start.\<close>

lemma parseFloat_NaN_iff: "parseFloat s = NaN \<longleftrightarrow> \<not> numeric_start s"
  unfolding parseFloat_def numeric_start_def
  using str_decimal_NaN_iff [of "dropWhile is_white_space s"]
  by (simp only: Let_def)

lemma accepted_iff:
  "accepted r \<longleftrightarrow>
     field r ''CharacteristicName'' = Some ''Temperature, water'' \<and>
     \<not> isNaN (parseFloat (ToString (field r ''ResultValue''))) \<and>
     isFinite (parseFloat (ToString (field r ''ResultValue'')))"
  by (auto simp: accepted_def isNaN_def parseFloat_NaN_iff)

lemma collect_value_eq:
  "collect_value vs r = (if accepted r then vs @ [reading r] else vs)"
  by (simp add: collect_value_def accepted_iff reading_def Let_def)

lemma foldl_collect_value:
  "foldl collect_value vs g = vs @ map reading (filter accepted g)"
  by (induction g arbitrary: vs) (simp_all add: collect_value_eq)

lemma js_add_finite:
  "isFinite v \<Longrightarrow> js_add (Num s) v = round_to_double (s + number_value v)"
  by (cases v) (simp_all add: isFinite_def)

lemma foldl_js_add_exact:
  "sums_exact s vs \<Longrightarrow> foldl js_add (Num s) vs = Num (s + sum_list (map number_value vs))"
  by (induction vs arbitrary: s) (simp_all add: js_add_finite add.assoc)

lemma average_without_rounding:
  assumes "no_rounding vs"
  shows "(if 0 < length vs
          then js_divide (foldl js_add (Num 0) vs) (Num (of_nat (length vs)))
          else Num 0) = Num (mean vs)"
proof (cases vs)
  case Nil
  then show ?thesis by (simp add: mean_def)
next
  case (Cons v ws)
  from assms have "foldl js_add (Num 0) vs = Num (sum_list (map number_value vs))"
    using foldl_js_add_exact [of 0 vs] by (simp add: no_rounding_def)
  moreover from assms have "round_to_double (mean vs) = Num (mean vs)"
    by (simp add: no_rounding_def)
  ultimately show ?thesis
    using Cons by (simp add: mean_def signed_zero_def)
qed

lemmas parse_simps =
  parseFloat_def str_decimal_literal_def str_unsigned_decimal_literal_def
  unsigned_decimal_def exponent_part_def is_digit_def is_white_space_def digits_value_def
  double_simps negate_def isFinite_def isNaN_def ToString_def

lemmas index_simps =
  indexRecordsByLocation_def index_record_def truthy_def field_def map_has_def map_get_def
  map_set_def get_push_def Let_def

text \<open>
  C1, as amended. For every index and target id, \<open>validValues\<close> holds, in encounter order
  within the target's group, the readings of the records whose \<open>CharacteristicName\<close> is
  exactly \<open>Temperature, water\<close> and for whose \<open>ResultValue\<close> \<open>parseFloat\<close> gives a finite
  number, that is, whose text after leading white space starts with a decimal literal of
  finite binary64 value, whatever follows the literal; \<open>count\<close> is the length of
  \<open>validValues\<close>; \<open>average\<close> is 0 when there are none, and else the binary64 quotient, by
  the count, of their binary64 sum taken from the left. It is their arithmetic mean
  whenever no step of that computation rounds.
\<close>

theorem aggregate_collects_parseFloat_readings:
  "calculateTemperatureAverageFromIndex idx L =
     (let vs = map reading (filter accepted (group_of idx L)) in
      \<lparr>monitoringLocationId = L,
       average = (if vs = [] then Num 0
                  else js_divide (foldl (\<lambda>sum val. js_add sum val) (Num 0) vs)
                         (Num (of_nat (length vs)))),
       count' = length vs,
       validValues = vs\<rparr>) \<and>
   (no_rounding (validValues (calculateTemperatureAverageFromIndex idx L)) \<longrightarrow>
    average (calculateTemperatureAverageFromIndex idx L) =
      Num (mean (validValues (calculateTemperatureAverageFromIndex idx L))))"
proof -
  let ?vs = "map reading (filter accepted (group_of idx L))"
  let ?avg = "if 0 < length ?vs
              then js_divide (foldl js_add (Num 0) ?vs) (Num (of_nat (length ?vs)))
              else Num 0"
  have run: "calculateTemperatureAverageFromIndex idx L =
      \<lparr>monitoringLocationId = L, average = ?avg, count' = length ?vs, validValues = ?vs\<rparr>"
    by (simp add: calculateTemperatureAverageFromIndex_def group_of_def foldl_collect_value
          Let_def)
  have "no_rounding ?vs \<longrightarrow> ?avg = Num (mean ?vs)"
    using average_without_rounding [of ?vs] by blast
  then show ?thesis
    unfolding run by (simp add: Let_def)
qed

lemma index_temperature_records:
  "group_of (indexRecordsByLocation temperature_records) ''LOC001'' = take 12 temperature_records"
  by (simp add: temperature_records_def group_of_def index_simps)

lemma readings_temperature_records:
  "map reading (filter accepted (take 12 temperature_records)) =
     [Num (31 / 2), Num (33 / 2), Num (37 / 2), Num (35 / 2)]"
  by (simp add: temperature_records_def accepted_iff reading_def field_def parse_simps)

lemma no_rounding_temperature:
  "no_rounding [Num (31 / 2), Num (33 / 2), Num (37 / 2), Num (35 / 2)]"
  "mean [Num (31 / 2), Num (33 / 2), Num (37 / 2), Num (35 / 2)] = 17"
  by (simp_all add: no_rounding_def mean_def isFinite_def double_simps)

theorem aggregate_collects_parseFloat_readings_witness:
  "no_rounding [Num (31 / 2), Num (33 / 2), Num (37 / 2), Num (35 / 2)] \<and>
   calculateTemperatureAverageFromIndex (indexRecordsByLocation temperature_records) ''LOC001'' =
     \<lparr>monitoringLocationId = ''LOC001'', average = Num 17, count' = 4,
      validValues = [Num (31 / 2), Num (33 / 2), Num (37 / 2), Num (35 / 2)]\<rparr>"
proof -
  let ?r = "calculateTemperatureAverageFromIndex (indexRecordsByLocation temperature_records)
              ''LOC001''"
  note t = aggregate_collects_parseFloat_readings
             [of "indexRecordsByLocation temperature_records" "''LOC001''"]
  from t have vs: "validValues ?r = [Num (31 / 2), Num (33 / 2), Num (37 / 2), Num (35 / 2)]"
    and n: "count' ?r = 4" and l: "monitoringLocationId ?r = ''LOC001''"
    by (simp_all add: Let_def index_temperature_records readings_temperature_records)
  from t have "no_rounding (validValues ?r) \<longrightarrow> average ?r = Num (mean (validValues ?r))"
    by blast
  with no_rounding_temperature have a: "average ?r = Num 17"
    by (simp add: vs)
  have "?r = \<lparr>monitoringLocationId = monitoringLocationId ?r, average = average ?r,
              count' = count' ?r, validValues = validValues ?r\<rparr>"
    by simp
  with vs n l a no_rounding_temperature(1) show ?thesis
    by simp
qed

text \<open>
  C1 as stated fails twice. A \<open>ResultValue\<close> of \<open>12abc\<close> is not a well-formed number, yet
  its numeric prefix is taken and 12 appears in \<open>validValues\<close>. And of the readings
  \<open>1e16\<close>, \<open>1\<close> and \<open>-1e16\<close>, whose arithmetic mean is a third, the average is 0: the
  sum \<open>1e16 + 1\<close> rounds to \<open>1e16\<close>.
\<close>

theorem malformed_value_counterexample:
  "\<not> well_formed_number ''12abc'' \<and>
   validValues (calculateTemperatureAverageFromIndex
     (indexRecordsByLocation
        [[(''MonitoringLocationID'', ''LOC001''),
          (''CharacteristicName'', ''Temperature, water''),
          (''ResultValue'', ''12abc'')]])
     ''LOC001'') = [Num 12] \<and>
   claimed_validValues
     (indexRecordsByLocation
        [[(''MonitoringLocationID'', ''LOC001''),
          (''CharacteristicName'', ''Temperature, water''),
          (''ResultValue'', ''12abc'')]])
     ''LOC001'' = [] \<and>
   calculateTemperatureAverageFromIndex (indexRecordsByLocation cancelling_records) ''LOC001'' =
     \<lparr>monitoringLocationId = ''LOC001'', average = Num 0, count' = 3,
      validValues = [Num 10000000000000000, Num 1, Num (- 10000000000000000)]\<rparr> \<and>
   mean [Num 10000000000000000, Num 1, Num (- 10000000000000000)] = 1 / 3"
proof -
  have a: "\<not> well_formed_number ''12abc'' \<and>
   validValues (calculateTemperatureAverageFromIndex
     (indexRecordsByLocation
        [[(''MonitoringLocationID'', ''LOC001''),
          (''CharacteristicName'', ''Temperature, water''),
          (''ResultValue'', ''12abc'')]])
     ''LOC001'') = [Num 12] \<and>
   claimed_validValues
     (indexRecordsByLocation
        [[(''MonitoringLocationID'', ''LOC001''),
          (''CharacteristicName'', ''Temperature, water''),
          (''ResultValue'', ''12abc'')]])
     ''LOC001'' = []"
    by (simp add: calculateTemperatureAverageFromIndex_def collect_value_def
          claimed_validValues_def well_formed_number_def group_of_def reading_def
          index_simps parse_simps)
  have b: "calculateTemperatureAverageFromIndex (indexRecordsByLocation cancelling_records)
        ''LOC001'' =
     \<lparr>monitoringLocationId = ''LOC001'', average = Num 0, count' = 3,
      validValues = [Num 10000000000000000, Num 1, Num (- 10000000000000000)]\<rparr>"
    by (simp add: cancelling_records_def calculateTemperatureAverageFromIndex_def
          collect_value_def index_simps parse_simps)
  have c: "mean [Num 10000000000000000, Num 1, Num (- 10000000000000000)] = 1 / 3"
    by (simp add: mean_def)
  from a b c show ?thesis by blast
qed

text \<open>
  Two readings of \<open>1e308\<close> have the average \<open>Infinity\<close>: their sum is beyond the largest
  binary64 value. A reading of \<open>-0.0\<close> is kept with its sign, and the average of it alone
  is the zero of positive sign, which the sum starts from.
\<close>

lemma aggregate_overflowing_records:
  "average (calculateTemperatureAverageFromIndex (indexRecordsByLocation overflowing_records)
      ''LOC001'') = PosInfinity"
  "count' (calculateTemperatureAverageFromIndex (indexRecordsByLocation overflowing_records)
      ''LOC001'') = 2"
  using round_to_double_1e308_twice
  by (simp_all add: overflowing_records_def calculateTemperatureAverageFromIndex_def
        collect_value_def index_simps parse_simps round_to_double_1e308
        round_to_double_1e308_value js_divide_def is_negative_def is_zero_def
        signed_infinity_def)

lemma aggregate_negative_zero_records:
  "calculateTemperatureAverageFromIndex (indexRecordsByLocation negative_zero_records)
      ''LOC001'' =
     \<lparr>monitoringLocationId = ''LOC001'', average = Num 0, count' = 1, validValues = [NegZero]\<rparr>"
  by (simp add: negative_zero_records_def calculateTemperatureAverageFromIndex_def
        collect_value_def index_simps parse_simps)

text \<open>
  C4. For a location id that is not a key of the index the aggregation returns the
  queried id with average 0, count 0 and no values; the function has no failing branch.
\<close>

theorem aggregate_unknown_location:
  "\<not> map_has idx L \<Longrightarrow>
   calculateTemperatureAverageFromIndex idx L =
     \<lparr>monitoringLocationId = L, average = Num 0, count' = 0, validValues = []\<rparr>"
  by (simp add: calculateTemperatureAverageFromIndex_def map_has_def map_get_def)

theorem aggregate_unknown_location_witness:
  "\<not> map_has
       (indexRecordsByLocation
          [[(''MonitoringLocationID'', ''LOC001''),
            (''CharacteristicName'', ''Temperature, water''),
            (''ResultValue'', ''15.5'')]])
       ''LOC999'' \<and>
   calculateTemperatureAverageFromIndex
       (indexRecordsByLocation
          [[(''MonitoringLocationID'', ''LOC001''),
            (''CharacteristicName'', ''Temperature, water''),
            (''ResultValue'', ''15.5'')]])
       ''LOC999'' =
     \<lparr>monitoringLocationId = ''LOC999'', average = Num 0, count' = 0, validValues = []\<rparr>"
proof -
  have h: "\<not> map_has
       (indexRecordsByLocation
          [[(''MonitoringLocationID'', ''LOC001''),
            (''CharacteristicName'', ''Temperature, water''),
            (''ResultValue'', ''15.5'')]])
       ''LOC999''"
    by (simp add: index_simps)
  from h aggregate_unknown_location [OF h] show ?thesis by simp
qed

lemma parseFloat_samples:
  "parseFloat ''15.5'' = Num (31 / 2)"
  "parseFloat ''-0'' = NegZero"
  "parseFloat ''Infinity'' = PosInfinity"
  "parseFloat ''-Infinity'' = NegInfinity"
  "parseFloat ''invalid'' = NaN"
  "parseFloat ''undefined'' = NaN"
  "parseFloat ''NaN'' = NaN"
  "parseFloat '' -2.5e1 C'' = Num (- 25)"
  "parseFloat ''2021-01-05'' = Num 2021"
  "parseFloat ''.5'' = Num (1 / 2)"
  by (simp_all add: parse_simps Let_def)

lemma parseFloat_overflow: "parseFloat ''1e400'' = PosInfinity"
proof -
  have "pow2 1024 \<le> 10 ^ 400"
    by (simp add: pow2_def)
  then have "round_to_double (10 ^ 400) = PosInfinity"
    by (rule round_to_double_overflow)
  then show ?thesis
    by (simp add: parseFloat_def str_decimal_literal_def str_unsigned_decimal_literal_def
          unsigned_decimal_def exponent_part_def is_digit_def is_white_space_def
          digits_value_def Let_def)
qed

section \<open>Properties of the derived locations\<close>

lemma collect_locations_nonempty_groups:
  "list_all (\<lambda>e. snd e \<noteq> []) idx \<Longrightarrow>
   collect_locations idx locations = Inr (locations @ map location_of_entry idx)"
proof (induction idx locations rule: collect_locations.induct)
  case (1 locations)
  then show ?case by simp
next
  case (2 locationId locationRecords entries locations)
  from "2.prems" obtain firstRecord rest where g: "locationRecords = firstRecord # rest"
    by (cases locationRecords) auto
  from "2.prems" have tl: "list_all (\<lambda>e. snd e \<noteq> []) entries"
    by simp
  show ?case
    using "2.IH" [OF g refl tl]
    by (auto simp: g Let_def location_of_entry_def location_name_def truthy_def
          split: option.splits)
qed

lemma index_groups_nonempty:
  "list_all (\<lambda>e. snd e \<noteq> []) (indexRecordsByLocation R)"
  unfolding list_all_iff using index_entry_is_group [of _ _ R] by auto

text \<open>
  C5. On an index whose groups each have a first record, the derived locations are one
  per entry (hence one per distinct key): the name is the first record's
  \<open>MonitoringLocationName\<close> when that key is present and non-empty, else the location
  id, and the display name is \<open>name (id)\<close>; the sequence is sorted ascending by name
  under the locale's comparison; and an index without entries gives the empty sequence.
\<close>

theorem derive_locations_sorted_by_name:
  assumes "list_all (\<lambda>e. snd e \<noteq> []) idx"
  shows "\<exists>locations.
     getMonitoringLocationsWithNamesFromIndex localeCompare idx = Inr locations \<and>
     locations = Sorting_Algorithms.sort (key name localeCompare) (map location_of_entry idx) \<and>
     mset locations = mset (map location_of_entry idx) \<and>
     mset (map id' locations) = mset (map fst idx) \<and>
     list_all (\<lambda>l. displayName l = name l @ '' ('' @ id' l @ '')'') locations \<and>
     Sorting_Algorithms.sorted (key name localeCompare) locations \<and>
     getMonitoringLocationsWithNamesFromIndex localeCompare [] = Inr []"
proof -
  let ?ls = "Sorting_Algorithms.sort (key name localeCompare) (map location_of_entry idx)"
  have run: "getMonitoringLocationsWithNamesFromIndex localeCompare idx = Inr ?ls"
    by (simp add: getMonitoringLocationsWithNamesFromIndex_def
          collect_locations_nonempty_groups [OF assms])
  have perm: "mset ?ls = mset (map location_of_entry idx)"
    by simp
  have fsts: "map id' (map location_of_entry idx) = map fst idx"
    by (simp add: location_of_entry_def)
  have "mset (map id' ?ls) = mset (map id' (map location_of_entry idx))"
    using perm by (metis mset_map)
  then have ids: "mset (map id' ?ls) = mset (map fst idx)"
    unfolding fsts .
  have disp: "list_all (\<lambda>l. displayName l = name l @ '' ('' @ id' l @ '')'') ?ls"
    by (auto simp: list_all_iff location_of_entry_def)
  have srt: "Sorting_Algorithms.sorted (key name localeCompare) ?ls"
    by simp
  have emp: "getMonitoringLocationsWithNamesFromIndex localeCompare [] = Inr []"
    by (simp add: getMonitoringLocationsWithNamesFromIndex_def)
  from run perm ids disp srt emp show ?thesis by blast
qed

text \<open>
  C10. Every group of an index built by \<open>indexRecordsByLocation\<close> is non-empty, so on
  such an index the read of each group's first record finds a record: the derivation
  does not throw and returns the sorted locations.
\<close>

theorem built_index_has_first_records:
  "list_all (\<lambda>e. snd e \<noteq> []) (indexRecordsByLocation R) \<and>
   getMonitoringLocationsWithNamesFromIndex localeCompare (indexRecordsByLocation R) =
     Inr (Sorting_Algorithms.sort (key name localeCompare)
            (map location_of_entry (indexRecordsByLocation R)))"
  by (simp add: index_groups_nonempty getMonitoringLocationsWithNamesFromIndex_def
        collect_locations_nonempty_groups)

lemma derive_locations_empty_group_throws:
  "getMonitoringLocationsWithNamesFromIndex localeCompare [(''LOC001'', [])] = Inl TypeError"
  by (simp add: getMonitoringLocationsWithNamesFromIndex_def)

lemma compare_code_unit_order:
  "compare code_unit_order a b \<noteq> Greater \<longleftrightarrow> a \<le> b"
  unfolding code_unit_order_def by (metis compare_default_eq_Greater_iff not_less)

lemma index_lake_records:
  "indexRecordsByLocation lake_records =
     [(''LOC003'', [lake_records ! 0]), (''LOC001'', [lake_records ! 1]),
      (''LOC002'', [lake_records ! 2])]"
  by (simp add: lake_records_def index_simps)

lemma sort_lake_locations:
  "Sorting_Algorithms.sort (key name code_unit_order)
     (map location_of_entry (indexRecordsByLocation lake_records)) =
   [\<lparr>id' = ''LOC001'', name = ''Apple Lake'', displayName = ''Apple Lake (LOC001)''\<rparr>,
    \<lparr>id' = ''LOC002'', name = ''LOC002'', displayName = ''LOC002 (LOC002)''\<rparr>,
    \<lparr>id' = ''LOC003'', name = ''Zebra Lake'', displayName = ''Zebra Lake (LOC003)''\<rparr>]"
  unfolding index_lake_records
  by (simp add: lake_records_def location_of_entry_def location_name_def
        field_def compare_code_unit_order less_eq_char_def less_char_def)

theorem derive_locations_sorted_by_name_witness:
  "list_all (\<lambda>e. snd e \<noteq> []) (indexRecordsByLocation lake_records) \<and>
   getMonitoringLocationsWithNamesFromIndex code_unit_order (indexRecordsByLocation lake_records) =
     Inr [\<lparr>id' = ''LOC001'', name = ''Apple Lake'', displayName = ''Apple Lake (LOC001)''\<rparr>,
          \<lparr>id' = ''LOC002'', name = ''LOC002'', displayName = ''LOC002 (LOC002)''\<rparr>,
          \<lparr>id' = ''LOC003'', name = ''Zebra Lake'', displayName = ''Zebra Lake (LOC003)''\<rparr>]"
proof -
  have h: "list_all (\<lambda>e. snd e \<noteq> []) (indexRecordsByLocation lake_records)"
    by (simp add: index_lake_records)
  from derive_locations_sorted_by_name [OF h, of code_unit_order]
  have "getMonitoringLocationsWithNamesFromIndex code_unit_order
          (indexRecordsByLocation lake_records) =
        Inr (Sorting_Algorithms.sort (key name code_unit_order)
               (map location_of_entry (indexRecordsByLocation lake_records)))"
    by blast
  with h show ?thesis
    unfolding sort_lake_locations by simp
qed

section \<open>Properties of parseCSVFile\<close>

lemma chunk_callback_throws:
  "maxArguments < length (data results) \<Longrightarrow>
   chunk_callback maxArguments useWorker onProgress fileSize st results = Inl RangeError"
  by (auto simp: chunk_callback_def)

lemma handle_chunk_oversized:
  "maxArguments < length (data results) \<Longrightarrow>
   handle_chunk maxArguments useWorker onProgress fileSize st results = st"
  by (simp add: handle_chunk_def chunk_callback_throws)

lemma allRecords_handle_chunk:
  "allRecords (handle_chunk maxArguments useWorker onProgress fileSize st results) =
     allRecords st @
       (if length (data results) \<le> maxArguments
        then (if useWorker then map trim_row (data results) else data results)
        else [])"
  by (auto simp: handle_chunk_def chunk_callback_def Let_def)

lemma allRecords_foldl_handle_chunk:
  "allRecords (foldl (handle_chunk maxArguments useWorker onProgress fileSize) st chunks) =
     allRecords st @ delivered maxArguments useWorker chunks"
proof (induction chunks arbitrary: st)
  case Nil
  then show ?case by (simp add: delivered_def taken_def)
next
  case (Cons results chunks)
  show ?case
    unfolding foldl_Cons Cons.IH allRecords_handle_chunk
    by (simp add: delivered_def taken_def)
qed

text \<open>
  When the engine completes, the promise is rejected with the error of empty input if the
  taken batches hold no row; otherwise with the schema error, whose message lists the
  required keys that the first stored row lacks, if it lacks any; otherwise it resolves
  with all stored rows. Only the first row is looked at.
\<close>

lemma decode_completion_validates_first_record:
  "snd (parseCSVFile maxArguments useWorker onProgress fileSize chunks Complete) =
     Some
       (case delivered maxArguments useWorker chunks of
          [] \<Rightarrow> Inl (Error ''No data found in CSV file'')
        | firstRecord # rest \<Rightarrow>
            let a = ''MonitoringLocationID'' \<in> fst ` set firstRecord;
                b = ''CharacteristicName'' \<in> fst ` set firstRecord;
                c = ''ResultValue'' \<in> fst ` set firstRecord
            in if a \<and> b \<and> c then Inr (firstRecord # rest)
               else Inl (Error (''Missing required columns: '' @
                 (if a \<and> b then ''ResultValue''
                  else if a \<and> c then ''CharacteristicName''
                  else if b \<and> c then ''MonitoringLocationID''
                  else if a then ''CharacteristicName, ResultValue''
                  else if b then ''MonitoringLocationID, ResultValue''
                  else if c then ''MonitoringLocationID, CharacteristicName''
                  else ''MonitoringLocationID, CharacteristicName, ResultValue''))))"
proof (cases "delivered maxArguments useWorker chunks")
  case Nil
  then show ?thesis
    by (simp add: parseCSVFile_def complete_callback_def allRecords_foldl_handle_chunk Let_def)
next
  case (Cons firstRecord rest)
  have has: "has_property firstRecord k \<longleftrightarrow> k \<in> fst ` set firstRecord" for k
    by (simp add: has_property_def map_of_eq_None_iff)
  show ?thesis
    by (simp add: parseCSVFile_def complete_callback_def allRecords_foldl_handle_chunk
          Cons requiredColumns_def has Let_def)
qed

lemma decode_missing_ResultValue:
  "snd (parseCSVFile 100000 False False 50 [\<lparr>data = [short_row], cursor = Some 50\<rparr>] Complete) =
   Some (Inl (Error ''Missing required columns: ResultValue''))"
  by (simp add: parseCSVFile_def complete_callback_def handle_chunk_def chunk_callback_def
        requiredColumns_def has_property_def short_row_def Let_def)

text \<open>
  C3 at a batch with more rows than a call takes arguments. The handler throws and
  stores nothing. If the engine then makes no further call, the promise never settles;
  if it went on to complete, the promise would be rejected for empty input. In neither
  case is the first row validated, whatever keys it lacks.
\<close>

theorem oversized_batch_is_not_validated:
  assumes "maxArguments < length (data results)"
  shows "chunk_callback maxArguments useWorker onProgress fileSize st results = Inl RangeError \<and>
     snd (parseCSVFile maxArguments useWorker onProgress fileSize [results] NoFurtherCall) = None \<and>
     snd (parseCSVFile maxArguments useWorker onProgress fileSize [results] Complete) =
       Some (Inl (Error ''No data found in CSV file''))"
  using assms
  by (simp add: chunk_callback_throws parseCSVFile_def handle_chunk_oversized
        complete_callback_def Let_def)

theorem oversized_batch_is_not_validated_witness:
  "200000 < length (data \<lparr>data = replicate 262141 short_row, cursor = Some 10485760\<rparr>) \<and>
   \<not> has_property short_row ''ResultValue'' \<and>
   chunk_callback 200000 False True 37748736
       \<lparr>allRecords = [], processed = 0, notified = []\<rparr>
       \<lparr>data = replicate 262141 short_row, cursor = Some 10485760\<rparr> = Inl RangeError \<and>
   snd (parseCSVFile 200000 False True 37748736
          [\<lparr>data = replicate 262141 short_row, cursor = Some 10485760\<rparr>] NoFurtherCall) = None \<and>
   snd (parseCSVFile 200000 False True 37748736
          [\<lparr>data = replicate 262141 short_row, cursor = Some 10485760\<rparr>] Complete) =
     Some (Inl (Error ''No data found in CSV file''))"
proof -
  have h: "200000 < length (data \<lparr>data = replicate 262141 short_row, cursor = Some 10485760\<rparr>)"
    by simp
  have k: "\<not> has_property short_row ''ResultValue''"
    by (simp add: has_property_def short_row_def)
  from h k oversized_batch_is_not_validated [OF h] show ?thesis
    by blast
qed

lemma snd_complete_callback_Inr:
  "snd (complete_callback onProgress fileSize st) = Inr recs \<Longrightarrow> recs = allRecords st"
  by (auto simp: complete_callback_def Let_def split: if_splits)











text \<open>Without the worker the handler passes the rows on as the engine delivers them.\<close>

lemma main_thread_records_as_delivered:
  "snd (parseCSVFile maxArguments False onProgress fileSize chunks Complete) = Some (Inr recs) \<Longrightarrow>
   recs = concat (map data (taken maxArguments chunks))"
  by (auto simp: parseCSVFile_def allRecords_foldl_handle_chunk delivered_def Let_def
        dest: snd_complete_callback_Inr)

section \<open>Progress notifications\<close>

lemma notified_handle_chunk:
  "notified (handle_chunk maxArguments useWorker True fileSize st results) =
     notified st @
       (if length (data results) \<le> maxArguments
        then (case cursor results of None \<Rightarrow> [] | Some c \<Rightarrow> [progress_of fileSize c])
        else [])"
  by (auto simp: handle_chunk_def chunk_callback_def progress_of_def Let_def)

lemma notified_foldl_handle_chunk:
  "notified (foldl (handle_chunk maxArguments useWorker True fileSize) st chunks) =
     notified st @ map (progress_of fileSize) (reported_cursors maxArguments chunks)"
proof (induction chunks arbitrary: st)
  case Nil
  then show ?case by (simp add: reported_cursors_def taken_def)
next
  case (Cons results chunks)
  show ?case
    unfolding foldl_Cons Cons.IH notified_handle_chunk
    by (auto simp: reported_cursors_def taken_def)
qed

lemma progress_calls_on_completion:
  "fst (parseCSVFile maxArguments useWorker True fileSize chunks Complete) =
     map (progress_of fileSize) (reported_cursors maxArguments chunks) @
       [\<lparr>bytesProcessed = fileSize, totalBytes = fileSize, percentage = Num 100\<rparr>]"
  by (simp add: parseCSVFile_def complete_callback_def notified_foldl_handle_chunk Let_def)

lemma percentage_in_range:
  assumes "0 < fileSize" and "c \<le> fileSize"
  shows "\<exists>n. n \<le> 100 \<and> percentage (progress_of fileSize c) = Num (of_nat n)"
proof -
  let ?q = "of_nat c / of_nat fileSize :: rat"
  have q: "0 \<le> ?q" "?q \<le> 1"
    using assms by simp_all
  have "\<exists>y. round_to_double ?q = Num y \<and> 0 \<le> y \<and> y \<le> 1"
  proof (cases "?q = 0")
    case True
    then have "round_to_double ?q = Num 0"
      by (simp only: round_to_double_zero)
    then show ?thesis by simp
  next
    case False
    with q have "0 < ?q" by simp
    from round_to_double_bounded [OF this q(2), of 1 0] show ?thesis
      by (simp add: pow2_def)
  qed
  then obtain y where y: "round_to_double ?q = Num y" "0 \<le> y" "y \<le> 1"
    by blast
  have "\<exists>z. round_to_double (y * 100) = Num z \<and> 0 \<le> z \<and> z \<le> 100"
  proof (cases "y = 0")
    case True
    then have "round_to_double (y * 100) = Num 0"
      by simp
    then show ?thesis by simp
  next
    case False
    with y have "0 < y * 100" "y * 100 \<le> 100" by simp_all
    from round_to_double_bounded [OF this, of 25 2] show ?thesis
      by (simp add: pow2_def)
  qed
  then obtain z where z: "round_to_double (y * 100) = Num z" "0 \<le> z" "z \<le> 100"
    by blast
  have fs: "(of_nat fileSize :: rat) \<noteq> 0" using assms(1) by simp
  have d: "js_divide (Num (of_nat c)) (Num (of_nat fileSize)) = Num y"
    using fs y(1) by (auto simp: signed_zero_def)
  have m: "js_multiply (Num y) (Num 100) = Num z"
    using z(1) by (auto simp: signed_zero_def)
  have p: "percentage (progress_of fileSize c) = Num (of_int \<lfloor>z\<rfloor>)"
    by (simp add: progress_of_def d m Math_floor_def del: js_divide_Num js_multiply_Num)
  have lo: "0 \<le> \<lfloor>z\<rfloor>" and hi: "\<lfloor>z\<rfloor> \<le> 100"
    using z by (simp_all add: floor_le_iff)
  from lo hi have "nat \<lfloor>z\<rfloor> \<le> 100"
    by linarith
  moreover from lo have "(of_int \<lfloor>z\<rfloor> :: rat) = of_nat (nat \<lfloor>z\<rfloor>)"
    by (simp only: of_nat_nat)
  ultimately show ?thesis
    using p by metis
qed

text \<open>The percentage is computed in binary64: 58 of 100 bytes are reported as 57.\<close>

lemma percentage_58_of_100: "percentage (progress_of 100 58) = Num 57"
  by (simp add: progress_of_def round_to_double_58_percent Math_floor_def
        floor_rat_numeral_divide)

lemma bytesProcessed_progress_of:
  "map bytesProcessed (map (progress_of fileSize) cs) = cs"
  by (induction cs) (simp_all add: progress_of_def)

text \<open>
  For a source of positive length whose engine reports cursors that never decrease and
  never exceed the length, the calls carry the length, an integer percentage from 0 to
  100 and non-decreasing byte counts, and the last call is the one of 100 percent.
\<close>

lemma progress_calls_nonempty_source:
  assumes "0 < fileSize"
    and "sorted_wrt (\<le>) (reported_cursors maxArguments chunks)"
    and "list_all (\<lambda>c. c \<le> fileSize) (reported_cursors maxArguments chunks)"
  shows "list_all (\<lambda>p. totalBytes p = fileSize \<and>
              (\<exists>n. n \<le> 100 \<and> percentage p = Num (of_nat n)))
           (fst (parseCSVFile maxArguments useWorker True fileSize chunks Complete))"
    and "sorted_wrt (\<le>)
           (map bytesProcessed
              (fst (parseCSVFile maxArguments useWorker True fileSize chunks Complete)))"
    and "last (fst (parseCSVFile maxArguments useWorker True fileSize chunks Complete)) =
           \<lparr>bytesProcessed = fileSize, totalBytes = fileSize, percentage = Num 100\<rparr>"
proof -
  let ?cs = "reported_cursors maxArguments chunks"
  have each: "totalBytes (progress_of fileSize c) = fileSize \<and>
        (\<exists>n. n \<le> 100 \<and> percentage (progress_of fileSize c) = Num (of_nat n))"
    if "c \<in> set ?cs" for c
  proof -
    from that assms(3) have "c \<le> fileSize"
      by (simp add: list_all_iff)
    from percentage_in_range [OF assms(1) this] show ?thesis
      by (auto simp: progress_of_def)
  qed
  have final: "\<exists>n. n \<le> 100 \<and> Num 100 = Num (of_nat n)"
    by (rule exI [of _ 100]) simp
  show "list_all (\<lambda>p. totalBytes p = fileSize \<and>
              (\<exists>n. n \<le> 100 \<and> percentage p = Num (of_nat n)))
           (fst (parseCSVFile maxArguments useWorker True fileSize chunks Complete))"
    unfolding progress_calls_on_completion list_all_iff
    using each final by auto
  have bytes: "map bytesProcessed (map (progress_of fileSize) ?cs) = ?cs"
    by (rule bytesProcessed_progress_of)
  show "sorted_wrt (\<le>)
           (map bytesProcessed
              (fst (parseCSVFile maxArguments useWorker True fileSize chunks Complete)))"
    unfolding progress_calls_on_completion map_append bytes
    using assms(2,3) by (simp add: sorted_wrt_append list_all_iff)
  show "last (fst (parseCSVFile maxArguments useWorker True fileSize chunks Complete)) =
           \<lparr>bytesProcessed = fileSize, totalBytes = fileSize, percentage = Num 100\<rparr>"
    unfolding progress_calls_on_completion by simp
qed

text \<open>
  C9 at an empty file. The engine hands the handler one batch without rows and with
  cursor 0; with \<open>file.size\<close> 0 the handler computes the percentage from 0 / 0 and
  calls \<open>onProgress\<close> with \<open>NaN\<close>, before the final call with 100 and the rejection.
\<close>

theorem empty_file_progress_percentage_NaN:
  "parseCSVFile maxArguments useWorker True 0 [\<lparr>data = [], cursor = Some 0\<rparr>] Complete =
     ([\<lparr>bytesProcessed = 0, totalBytes = 0, percentage = NaN\<rparr>,
       \<lparr>bytesProcessed = 0, totalBytes = 0, percentage = Num 100\<rparr>],
      Some (Inl (Error ''No data found in CSV file'')))"
  by (simp add: parseCSVFile_def complete_callback_def handle_chunk_def chunk_callback_def
        Math_floor_def Let_def)

section \<open>Properties of processFile\<close>

lemma foldl_onProgress_callback:
  "\<exists>p t. foldl onProgress_callback st progress = st\<lparr>parseProgress := p, totalRows := t\<rparr>"
proof (induction progress arbitrary: st)
  case Nil
  have "st = st\<lparr>parseProgress := parseProgress st, totalRows := totalRows st\<rparr>"
    by simp
  then show ?case
    unfolding foldl_Nil by blast
next
  case (Cons a progress)
  from Cons.IH [of "onProgress_callback st a"] obtain p t where
    "foldl onProgress_callback (onProgress_callback st a) progress =
       (onProgress_callback st a)\<lparr>parseProgress := p, totalRows := t\<rparr>"
    by blast
  then have "foldl onProgress_callback st (a # progress) =
       st\<lparr>parseProgress := p, totalRows := t\<rparr>"
    by (simp add: onProgress_callback_def)
  then show ?case by blast
qed

lemma try_block_fails:
  "ingestion_fails localeCompare parsed \<Longrightarrow>
   snd (try_block localeCompare parsed st) \<noteq> None \<and>
   catch_block (fst (try_block localeCompare parsed st)) = catch_block st"
  by (auto simp: try_block_def ingestion_fails_def catch_block_def Let_def split: sum.splits)

lemma processFile_failure:
  "ingestion_fails localeCompare parsed \<Longrightarrow>
   processFile localeCompare progress parsed st =
     st\<lparr>records := [], recordsIndex := [], monitoringLocations := [],
        isProcessing := False, error := Some ''Failed to process CSV file'',
        parseProgress := Num 0, totalRows := 0\<rparr>"
proof -
  assume f: "ingestion_fails localeCompare parsed"
  let ?st0 = "st\<lparr>isProcessing := True, error := None, parseProgress := Num 0, totalRows := 0\<rparr>"
  obtain p t where st1: "foldl onProgress_callback ?st0 progress =
      ?st0\<lparr>parseProgress := p, totalRows := t\<rparr>"
    using foldl_onProgress_callback [of ?st0 progress] by blast
  let ?st1 = "?st0\<lparr>parseProgress := p, totalRows := t\<rparr>"
  from try_block_fails [OF f, of ?st1]
  obtain e where thrown: "snd (try_block localeCompare parsed ?st1) = Some e"
    and caught: "catch_block (fst (try_block localeCompare parsed ?st1)) = catch_block ?st1"
    by auto
  have "processFile localeCompare progress parsed st = finally_block (catch_block ?st1)"
    unfolding processFile_def Let_def split_def st1
    by (simp only: thrown caught option.case)
  then show ?thesis
    by (simp add: catch_block_def finally_block_def)
qed

text \<open>
  C7, as amended. Every failing ingestion (a rejected parse, whatever its error, a parse
  without records, or an index without locations) ends with the stored records, the
  index and the locations emptied and the error message set; the result, the selected
  location and the search query are as they were. The index and locations built before
  are not kept.
\<close>

theorem failed_ingestion_clears_state:
  "ingestion_fails localeCompare parsed \<Longrightarrow>
   processFile localeCompare progress parsed st =
     st\<lparr>records := [], recordsIndex := [], monitoringLocations := [],
        isProcessing := False, error := Some ''Failed to process CSV file'',
        parseProgress := Num 0, totalRows := 0\<rparr>"
  by (rule processFile_failure)

lemma derive_built_index:
  "getMonitoringLocationsWithNamesFromIndex localeCompare (indexRecordsByLocation R) =
     Inr (Sorting_Algorithms.sort (key name localeCompare)
            (map location_of_entry (indexRecordsByLocation R)))"
  by (simp add: index_groups_nonempty getMonitoringLocationsWithNamesFromIndex_def
        collect_locations_nonempty_groups)

text \<open>A successful ingestion replaces the records, the index and the locations.\<close>

lemma successful_ingestion_replaces_state:
  assumes "\<not> ingestion_fails localeCompare (Inr parsedRecords)"
  shows "processFile localeCompare progress (Inr parsedRecords) st =
     st\<lparr>records := parsedRecords,
        recordsIndex := indexRecordsByLocation parsedRecords,
        monitoringLocations := Sorting_Algorithms.sort (key name localeCompare)
           (map location_of_entry (indexRecordsByLocation parsedRecords)),
        selectedLocation := [], searchQuery := [], result := None,
        isProcessing := False, error := None, parseProgress := Num 0, totalRows := 0\<rparr>"
proof -
  let ?st0 = "st\<lparr>isProcessing := True, error := None, parseProgress := Num 0, totalRows := 0\<rparr>"
  obtain p t where st1: "foldl onProgress_callback ?st0 progress =
      ?st0\<lparr>parseProgress := p, totalRows := t\<rparr>"
    using foldl_onProgress_callback [of ?st0 progress] by blast
  from assms have ne: "parsedRecords \<noteq> []"
    and locs: "Sorting_Algorithms.sort (key name localeCompare)
           (map location_of_entry (indexRecordsByLocation parsedRecords)) \<noteq> []"
    by (auto simp: ingestion_fails_def derive_built_index)
  show ?thesis
    unfolding processFile_def Let_def st1
    using ne locs
    by (auto simp: try_block_def derive_built_index finally_block_def Let_def)
qed

lemma lake_records_nonempty: "lake_records \<noteq> []"
  by (simp add: lake_records_def)

lemma lake_records_succeed: "\<not> ingestion_fails code_unit_order (Inr lake_records)"
  by (simp add: ingestion_fails_def derive_built_index sort_lake_locations
        lake_records_nonempty)

lemma loaded_state_eq:
  "loaded_state =
     \<lparr>records = lake_records,
      recordsIndex = [(''LOC003'', [lake_records ! 0]), (''LOC001'', [lake_records ! 1]),
                      (''LOC002'', [lake_records ! 2])],
      monitoringLocations =
        [\<lparr>id' = ''LOC001'', name = ''Apple Lake'', displayName = ''Apple Lake (LOC001)''\<rparr>,
         \<lparr>id' = ''LOC002'', name = ''LOC002'', displayName = ''LOC002 (LOC002)''\<rparr>,
         \<lparr>id' = ''LOC003'', name = ''Zebra Lake'', displayName = ''Zebra Lake (LOC003)''\<rparr>],
      selectedLocation = [], result = None, isProcessing = False, error = None,
      parseProgress = Num 0, totalRows = 0, searchQuery = []\<rparr>"
  unfolding loaded_state_def successful_ingestion_replaces_state [OF lake_records_succeed]
    sort_lake_locations
  by (simp add: initial_state_def index_lake_records)

text \<open>
  C7 as stated fails: after the lake records were processed with success, a rejected
  parse leaves neither the index nor the locations as they were.
\<close>

theorem failed_ingestion_counterexample:
  "recordsIndex loaded_state \<noteq> [] \<and>
   monitoringLocations loaded_state \<noteq> [] \<and>
   recordsIndex (processFile code_unit_order []
      (Inl (Error ''Failed to parse CSV: read failed'')) loaded_state) = [] \<and>
   monitoringLocations (processFile code_unit_order []
      (Inl (Error ''Failed to parse CSV: read failed'')) loaded_state) = []"
  by (simp add: loaded_state_eq processFile_def try_block_def catch_block_def
        finally_block_def Let_def)

theorem failed_ingestion_clears_state_witness:
  "ingestion_fails code_unit_order
     (Inr [[(''MonitoringLocationID'', []), (''CharacteristicName'', ''Temperature, water''),
            (''ResultValue'', ''15.5'')]]) \<and>
   processFile code_unit_order
     [\<lparr>bytesProcessed = 60, totalBytes = 60, percentage = Num 100\<rparr>]
     (Inr [[(''MonitoringLocationID'', []), (''CharacteristicName'', ''Temperature, water''),
            (''ResultValue'', ''15.5'')]])
     loaded_state =
       \<lparr>records = [], recordsIndex = [], monitoringLocations = [], selectedLocation = [],
        result = None, isProcessing = False, error = Some ''Failed to process CSV file'',
        parseProgress = Num 0, totalRows = 0, searchQuery = []\<rparr>"
proof -
  have h: "ingestion_fails code_unit_order
     (Inr [[(''MonitoringLocationID'', []), (''CharacteristicName'', ''Temperature, water''),
            (''ResultValue'', ''15.5'')]])"
    by (simp add: ingestion_fails_def getMonitoringLocationsWithNamesFromIndex_def index_simps)
  from h failed_ingestion_clears_state [OF h, of
      "[\<lparr>bytesProcessed = 60, totalBytes = 60, percentage = Num 100\<rparr>]" loaded_state]
  show ?thesis
    by (simp add: loaded_state_eq)
qed

text \<open>
  Through \<open>handleFileChange\<close> the result and the selected location are cleared before
  the parse starts, so after a failing ingestion of a selected file nothing of the
  earlier index, locations or result is left.
\<close>

lemma failed_file_change_clears_state:
  assumes "endsWith fileName ''.csv''" and "ingestion_fails localeCompare parsed"
  shows "handleFileChange localeCompare (Some fileName) progress parsed st =
     st\<lparr>records := [], recordsIndex := [], monitoringLocations := [],
        selectedLocation := [], result := None, isProcessing := False,
        error := Some ''Failed to process CSV file'', parseProgress := Num 0, totalRows := 0\<rparr>"
proof -
  let ?st = "st\<lparr>error := None, result := None, selectedLocation := []\<rparr>"
  have "handleFileChange localeCompare (Some fileName) progress parsed st =
        processFile localeCompare progress parsed ?st"
    using assms(1) by (simp add: handleFileChange_def)
  also have "\<dots> = ?st\<lparr>records := [], recordsIndex := [], monitoringLocations := [],
        isProcessing := False, error := Some ''Failed to process CSV file'',
        parseProgress := Num 0, totalRows := 0\<rparr>"
    using assms(2) by (rule processFile_failure)
  finally show ?thesis by simp
qed

end
